theory Spec2Isabelle
  imports Main "HOL-Library.Char_ord"
begin

section \<open>Go values shared by the packages\<close>

text \<open>
  Go's \<open>error\<close> values.  One constructor for each way the program obtains an error:
  the two sentinels of \<open>net/http\<close> it compares against, \<open>errors.New\<close>,
  \<open>fmt.Errorf\<close> with a \<open>%w\<close> verb (a prefix and the wrapped error), and the errors
  returned by library calls (\<open>strconv\<close>, \<open>encoding/json\<close>, the transport, \<open>io\<close>).
\<close>

datatype go_error =
    ErrServerClosed
  | ErrAbortHandler
  | errors_New string
  | fmt_Errorf_w string go_error
  | NumError string string string
  | SyntaxError
  | UnmarshalTypeError string
  | LibError string

text \<open>
  \<open>err.Error()\<close>.  The texts of \<open>errors.New\<close>, of \<open>fmt.Errorf("...: %w", err)\<close> and
  of the two sentinels are those of the source and of \<open>net/http\<close>; a \<open>NumError\<close> prints
  as \<open>strconv\<close> does, without the quoting of unprintable characters; the wording of the
  \<open>encoding/json\<close> errors is abbreviated; a \<open>LibError\<close> carries its own text.
\<close>

fun Error_text :: "go_error \<Rightarrow> string" where
  "Error_text ErrServerClosed = ''http: Server closed''"
| "Error_text ErrAbortHandler = ''net/http: abort Handler''"
| "Error_text (errors_New s) = s"
| "Error_text (fmt_Errorf_w prefix e) = prefix @ Error_text e"
| "Error_text (NumError fn num msg) =
     ''strconv.'' @ fn @ '': parsing '' @ [CHR 0x22] @ num @ [CHR 0x22] @ '': '' @ msg"
| "Error_text SyntaxError = ''invalid character in JSON input''"
| "Error_text (UnmarshalTypeError field) = ''json: cannot unmarshal into Go struct field '' @ field"
| "Error_text (LibError s) = s"

text \<open>\<open>errors.Is(err, target)\<close>: \<open>err\<close> or an error it wraps is \<open>target\<close>.\<close>

fun errors_Is :: "go_error \<Rightarrow> go_error \<Rightarrow> bool" where
  "errors_Is (fmt_Errorf_w prefix e) target =
     (fmt_Errorf_w prefix e = target \<or> errors_Is e target)"
| "errors_Is e target = (e = target)"

section \<open>The response writer and its recorder (main.go)\<close>

text \<open>
  The calls an \<open>http.ResponseWriter\<close> receives.  \<open>w.Header().Set(k, v)\<close> and
  \<open>w.Header().Del(k)\<close> mutate the header map of the writer that \<open>Header()\<close> returned.
\<close>

datatype call =
    HeaderSet string string
  | HeaderDel string
  | WriteHeaderCall int
  | WriteCall string

text \<open>
  An \<open>http.ResponseWriter\<close> interface value is either the server's own writer, modelled
  by the calls that have reached it, in order (\<open>Sink\<close>), or a
  \<open>responseRecorder{ResponseWriter, status, numBytes}\<close> wrapping another writer.  The
  recorder is handed on by pointer, so a method returns the updated writer.
\<close>

datatype ResponseWriter =
    Sink "call list"
  | responseRecorder ResponseWriter int int

fun status :: "ResponseWriter \<Rightarrow> int" where
  "status (responseRecorder w s n) = s"
| "status (Sink cs) = 0"

fun numBytes :: "ResponseWriter \<Rightarrow> int" where
  "numBytes (responseRecorder w s n) = n"
| "numBytes (Sink cs) = 0"

text \<open>The embedded field \<open>re.ResponseWriter\<close>; a \<open>Sink\<close> embeds nothing.\<close>

fun embedded :: "ResponseWriter \<Rightarrow> ResponseWriter" where
  "embedded (responseRecorder w s n) = w"
| "embedded (Sink cs) = Sink cs"

text \<open>The calls that have reached the server's writer at the bottom of the chain.\<close>

fun sink_calls :: "ResponseWriter \<Rightarrow> call list" where
  "sink_calls (Sink cs) = cs"
| "sink_calls (responseRecorder w s n) = sink_calls w"

text \<open>
  \<open>func (re *responseRecorder) Header() http.Header { return re.ResponseWriter.Header() }\<close>:
  a header mutation goes to the map of the underlying writer.
\<close>

fun Header_Set :: "string \<Rightarrow> string \<Rightarrow> ResponseWriter \<Rightarrow> ResponseWriter" where
  "Header_Set k v (Sink cs) = Sink (cs @ [HeaderSet k v])"
| "Header_Set k v (responseRecorder w s n) = responseRecorder (Header_Set k v w) s n"

fun Header_Del :: "string \<Rightarrow> ResponseWriter \<Rightarrow> ResponseWriter" where
  "Header_Del k (Sink cs) = Sink (cs @ [HeaderDel k])"
| "Header_Del k (responseRecorder w s n) = responseRecorder (Header_Del k w) s n"

text \<open>
  \<open>re.numBytes += len(b); return re.ResponseWriter.Write(b)\<close>.  The count and error that
  \<open>Write\<close> returns are passed through untouched and are not part of the model.
\<close>

fun Write :: "string \<Rightarrow> ResponseWriter \<Rightarrow> ResponseWriter" where
  "Write b (Sink cs) = Sink (cs @ [WriteCall b])"
| "Write b (responseRecorder w s n) = responseRecorder (Write b w) s (n + int (length b))"

text \<open>\<open>re.status = statusCode; re.ResponseWriter.WriteHeader(statusCode)\<close>.\<close>

fun WriteHeader :: "int \<Rightarrow> ResponseWriter \<Rightarrow> ResponseWriter" where
  "WriteHeader statusCode (Sink cs) = Sink (cs @ [WriteHeaderCall statusCode])"
| "WriteHeader statusCode (responseRecorder w s n) =
     responseRecorder (WriteHeader statusCode w) statusCode n"

text \<open>
  \<open>http.Error(w, error, code)\<close> of \<open>net/http\<close>: it deletes \<open>Content-Length\<close>, sets the
  content type and \<open>nosniff\<close>, writes the status and prints the text with a newline.
\<close>

definition http_Error :: "ResponseWriter \<Rightarrow> string \<Rightarrow> int \<Rightarrow> ResponseWriter" where
  "http_Error w err code =
     Write (err @ [CHR 0x0A])
       (WriteHeader code
         (Header_Set ''X-Content-Type-Options'' ''nosniff''
           (Header_Set ''Content-Type'' ''text/plain; charset=utf-8''
             (Header_Del ''Content-Length'' w))))"

text \<open>\<open>fmt.Fprintln(w, s)\<close>: one \<open>Write\<close> of the text and a newline.\<close>

definition fmt_Fprintln :: "ResponseWriter \<Rightarrow> string \<Rightarrow> ResponseWriter" where
  "fmt_Fprintln w s = Write (s @ [CHR 0x0A]) w"

section \<open>Requests, log entries and handlers (main.go)\<close>

text \<open>
  \<open>textproto.CanonicalMIMEHeaderKey\<close>: a key made of header-field bytes only gets an upper
  case letter at the start and after each dash and lower case letters elsewhere; any other
  key is returned unchanged.
\<close>

definition validHeaderFieldByte :: "char \<Rightarrow> bool" where
  "validHeaderFieldByte c =
     ((CHR ''a'' \<le> c \<and> c \<le> CHR ''z'') \<or> (CHR ''A'' \<le> c \<and> c \<le> CHR ''Z'') \<or>
      (CHR ''0'' \<le> c \<and> c \<le> CHR ''9'') \<or> c \<in> set ''!#$%&*+-.^_|~'' \<or>
      c = CHR 0x27 \<or> c = CHR 0x60)"

fun canonical_from :: "bool \<Rightarrow> string \<Rightarrow> string" where
  "canonical_from upper [] = []"
| "canonical_from upper (c # cs) =
     (let c' = (if upper \<and> CHR ''a'' \<le> c \<and> c \<le> CHR ''z''
                  then char_of (of_char c - (32::nat))
                else if \<not> upper \<and> CHR ''A'' \<le> c \<and> c \<le> CHR ''Z''
                  then char_of (of_char c + (32::nat))
                else c)
      in c' # canonical_from (c' = CHR ''-'') cs)"

definition CanonicalMIMEHeaderKey :: "string \<Rightarrow> string" where
  "CanonicalMIMEHeaderKey s =
     (if list_all validHeaderFieldByte s then canonical_from True s else s)"

text \<open>
  An \<open>*http.Request\<close>, as far as the handlers read it.  \<open>Header\<close> is the \<open>http.Header\<close>
  map under canonical keys, a missing key being the empty list; \<open>PathValue\<close> gives the
  value of a path wildcard, the empty string when the pattern has no such wildcard.
\<close>

record Request =
  Method :: string
  URL_Path :: string
  URL_RawQuery :: string
  Header :: "string \<Rightarrow> string list"
  RemoteAddr :: string
  PathValue :: "string \<Rightarrow> string"
  Body :: string

text \<open>\<open>r.Header.Get(key)\<close>: the first value under the canonical key, or the empty string.\<close>

definition Header_Get :: "(string \<Rightarrow> string list) \<Rightarrow> string \<Rightarrow> string" where
  "Header_Get h key = (case h (CanonicalMIMEHeaderKey key) of [] \<Rightarrow> [] | v # vs \<Rightarrow> v)"

text \<open>
  The value of \<open>recover()\<close> after a panic: an \<open>error\<close>, a string, or a value of another
  type, kept as the text \<open>fmt.Sprint\<close> prints for it.
\<close>

datatype panic_value =
    PanicError go_error
  | PanicString string
  | PanicOther string

fun fmt_Sprint :: "panic_value \<Rightarrow> string" where
  "fmt_Sprint (PanicError e) = Error_text e"
| "fmt_Sprint (PanicString s) = s"
| "fmt_Sprint (PanicOther s) = s"

text \<open>How a call of \<open>ServeHTTP\<close> ends: it returns, or a panic unwinds through it.\<close>

datatype outcome = Returns | Panics panic_value

text \<open>The entries a \<open>*slog.Logger\<close> emits, with their attributes in order.\<close>

datatype log_level = LevelInfo | LevelError

datatype attr =
    String_attr string
  | Int_attr int
  | Any_attr panic_value

record log_entry =
  level :: log_level
  msg :: string
  attrs :: "(string \<times> attr) list"

text \<open>
  An \<open>http.Handler\<close>: \<open>ServeHTTP(w, r)\<close> acts on the writer it is given and on the log,
  and returns or panics.
\<close>

type_synonym Handler =
  "ResponseWriter \<Rightarrow> Request \<Rightarrow> log_entry list \<Rightarrow> ResponseWriter \<times> log_entry list \<times> outcome"

text \<open>
  A route handler sees its writer through the methods of the interface only.  One run of
  it is the sequence of calls it makes on that writer, followed by its return or its panic
  (a panic raised inside the writer, as \<open>net/http\<close> does for an invalid status code, ends
  the run in the same way).
\<close>

fun perform :: "call \<Rightarrow> ResponseWriter \<Rightarrow> ResponseWriter" where
  "perform (HeaderSet k v) w = Header_Set k v w"
| "perform (HeaderDel k) w = Header_Del k w"
| "perform (WriteHeaderCall c) w = WriteHeader c w"
| "perform (WriteCall b) w = Write b w"

definition scripted :: "(Request \<Rightarrow> call list \<times> outcome) \<Rightarrow> Handler" where
  "scripted script w r lg = (fold perform (fst (script r)) w, lg, snd (script r))"

text \<open>
  \<open>accesslog(next, log)\<close>.  \<open>latency\<close> is the text of \<open>time.Since(start).String()\<close>, read
  from the clock.  The log call follows \<open>next.ServeHTTP(&wr, r)\<close> as an ordinary
  statement, so a panic of \<open>next\<close> leaves the function before it.
\<close>

definition accesslog :: "Handler \<Rightarrow> string \<Rightarrow> Handler" where
  "accesslog next latency w r lg =
     (let wr = responseRecorder w 0 0 in
      case next wr r lg of
        (wr', lg', Panics v) \<Rightarrow> (embedded wr', lg', Panics v)
      | (wr', lg', Returns) \<Rightarrow>
          (embedded wr',
           lg' @ [\<lparr>level = LevelInfo, msg = ''accessed'',
                   attrs = [(''latency'', String_attr latency),
                            (''method'', String_attr (Method r)),
                            (''path'', String_attr (URL_Path r)),
                            (''query'', String_attr (URL_RawQuery r)),
                            (''ip'', String_attr (Header_Get (Header r) ''X-Real-IP'')),
                            (''status'', Int_attr (status wr')),
                            (''bytes'', Int_attr (numBytes wr'))]\<rparr>],
           Returns))"

text \<open>
  \<open>err, ok := err.(error); ok && errors.Is(err, http.ErrAbortHandler)\<close>: the recovered
  value is an error that is, or wraps, the abort sentinel.
\<close>

fun is_abort :: "panic_value \<Rightarrow> bool" where
  "is_abort (PanicError e) = errors_Is e ErrAbortHandler"
| "is_abort (PanicString s) = False"
| "is_abort (PanicOther s) = False"

text \<open>
  \<open>recovery(next, log)\<close>.  The deferred function runs when \<open>next.ServeHTTP(&wr, r)\<close>
  returns or panics; \<open>stack\<close> is what \<open>runtime.Stack\<close> has to report, of which a buffer of
  1024 bytes is kept.  After \<open>recover()\<close> the handler returns normally.
\<close>

definition recovery :: "Handler \<Rightarrow> string \<Rightarrow> Handler" where
  "recovery next stack w r lg =
     (let wr = responseRecorder w 0 0 in
      case next wr r lg of
        (wr', lg', Returns) \<Rightarrow> (embedded wr', lg', Returns)
      | (wr', lg', Panics err) \<Rightarrow>
          (if is_abort err then (embedded wr', lg', Returns)
           else
             (let lg'' = lg' @ [\<lparr>level = LevelError, msg = ''panic!'',
                                 attrs = [(''error'', Any_attr err),
                                          (''stack'', String_attr (take 1024 stack)),
                                          (''method'', String_attr (Method r)),
                                          (''path'', String_attr (URL_Path r)),
                                          (''query'', String_attr (URL_RawQuery r)),
                                          (''ip'', String_attr (RemoteAddr r))]\<rparr>]
              in if status wr' > 0 then (embedded wr', lg'', Returns)
                 else (http_Error (embedded wr') (fmt_Sprint err) 500, lg'', Returns))))"

text \<open>
  \<open>route\<close>, with the \<open>mux\<close> that it builds from the route handlers taken as a
  parameter: \<open>handler := accesslog(mux, log); handler = recovery(handler, log)\<close>.
\<close>

definition route :: "Handler \<Rightarrow> string \<Rightarrow> string \<Rightarrow> Handler" where
  "route mux latency stack = recovery (accesslog mux latency) stack"

text \<open>The access-log entries of a log.\<close>

definition accessed_entries :: "log_entry list \<Rightarrow> log_entry list" where
  "accessed_entries lg = filter (\<lambda>e. msg e = ''accessed'') lg"

section \<open>The \<open>strconv\<close> conversions the program calls\<close>

definition is_digit :: "char \<Rightarrow> bool" where
  "is_digit c = (CHR ''0'' \<le> c \<and> c \<le> CHR ''9'')"

text \<open>
  The digit loop of \<open>strconv.ParseUint\<close> in base 10 for 64 bits: a byte that is not a
  digit is a syntax error; a value that leaves the range of \<open>uint64\<close> is a range error,
  reported at the digit where it happens.
\<close>

fun ParseUint_digits :: "int \<Rightarrow> string \<Rightarrow> string + int" where
  "ParseUint_digits n [] = Inr n"
| "ParseUint_digits n (c # cs) =
     (if \<not> is_digit c then Inl ''invalid syntax''
      else if 2 ^ 64 div 10 + 1 \<le> n then Inl ''value out of range''
      else if 2 ^ 64 - 1 < 10 * n + (int (of_char c) - 48) then Inl ''value out of range''
      else ParseUint_digits (10 * n + (int (of_char c) - 48)) cs)"

text \<open>
  \<open>strconv.Atoi\<close> for the 64-bit \<open>int\<close> of the platforms the program is built for: an
  optional sign, then the digits, at least one; a value outside of \<open>-2^63 .. 2^63 - 1\<close> is
  a range error.  (The short cut that \<open>Atoi\<close> takes for fewer than 19 bytes gives the same
  results as the path through \<open>ParseInt\<close>, which is the one written here.)
\<close>

definition Atoi :: "string \<Rightarrow> go_error + int" where
  "Atoi s =
     (let neg = (case s of c # t \<Rightarrow> c = CHR ''-'' | [] \<Rightarrow> False);
          ds = (case s of c # t \<Rightarrow> if c = CHR ''-'' \<or> c = CHR ''+'' then t else s | [] \<Rightarrow> s)
      in if ds = [] then Inl (NumError ''Atoi'' s ''invalid syntax'')
         else
           (case ParseUint_digits 0 ds of
              Inl why \<Rightarrow> Inl (NumError ''Atoi'' s why)
            | Inr un \<Rightarrow>
                if \<not> neg \<and> 2 ^ 63 \<le> un then Inl (NumError ''Atoi'' s ''value out of range'')
                else if neg \<and> 2 ^ 63 < un then Inl (NumError ''Atoi'' s ''value out of range'')
                else Inr (if neg then - un else un)))"

text \<open>\<open>strconv.Itoa\<close>: the decimal digits, after a minus sign for a negative number.\<close>

function decimal :: "int \<Rightarrow> string" where
  "decimal n =
     (if n < 10 then [char_of (48 + nat n)]
      else decimal (n div 10) @ [char_of (48 + nat (n mod 10))])"
  by pat_completeness auto

termination
  by (relation "measure nat") auto

declare decimal.simps [simp del]

definition Itoa :: "int \<Rightarrow> string" where
  "Itoa i = (if i < 0 then CHR ''-'' # decimal (- i) else decimal i)"

section \<open>JSON documents and \<open>encoding/json\<close>\<close>

text \<open>
  A JSON document.  A number keeps its literal; the members of an object keep their order
  and their duplicates.
\<close>

datatype json =
    JNull
  | JBool bool
  | JNumber string
  | JString string
  | JArray "json list"
  | JObject "(string \<times> json) list"

subsection \<open>Reading a document from bytes\<close>

definition is_space :: "char \<Rightarrow> bool" where
  "is_space c = (c = CHR '' '' \<or> c = CHR 0x09 \<or> c = CHR 0x0D \<or> c = CHR 0x0A)"

definition skip_space :: "string \<Rightarrow> string" where
  "skip_space s = dropWhile is_space s"

definition hex_value :: "char \<Rightarrow> nat option" where
  "hex_value c =
     (if CHR ''0'' \<le> c \<and> c \<le> CHR ''9'' then Some (of_char c - 48)
      else if CHR ''a'' \<le> c \<and> c \<le> CHR ''f'' then Some (of_char c - 87)
      else if CHR ''A'' \<le> c \<and> c \<le> CHR ''F'' then Some (of_char c - 55)
      else None)"

text \<open>The four hexadecimal digits of a \<open>\u\<close> escape.\<close>

definition getu4 :: "string \<Rightarrow> nat option" where
  "getu4 s =
     (case s of
        a # b # c # d # rest \<Rightarrow>
          (case (hex_value a, hex_value b, hex_value c, hex_value d) of
             (Some x3, Some x2, Some x1, Some x0) \<Rightarrow>
               Some (((x3 * 16 + x2) * 16 + x1) * 16 + x0)
           | _ \<Rightarrow> None)
      | _ \<Rightarrow> None)"

text \<open>\<open>utf8.EncodeRune\<close>; a surrogate or a value past U+10FFFF is written as U+FFFD.\<close>

definition EncodeRune :: "nat \<Rightarrow> string" where
  "EncodeRune r =
     (if r < 0x80 then [char_of r]
      else if r < 0x800 then [char_of (0xC0 + r div 64), char_of (0x80 + r mod 64)]
      else if (0xD800 \<le> r \<and> r < 0xE000) \<or> 0x10FFFF < r then [CHR 0xEF, CHR 0xBF, CHR 0xBD]
      else if r < 0x10000 then
        [char_of (0xE0 + r div 4096), char_of (0x80 + r div 64 mod 64),
         char_of (0x80 + r mod 64)]
      else
        [char_of (0xF0 + r div 262144), char_of (0x80 + r div 4096 mod 64),
         char_of (0x80 + r div 64 mod 64), char_of (0x80 + r mod 64)])"

text \<open>The single-character escapes of a JSON string.\<close>

definition unescape :: "char \<Rightarrow> char option" where
  "unescape e =
     (if e = CHR 0x22 \<or> e = CHR 0x5C \<or> e = CHR ''/'' then Some e
      else if e = CHR ''b'' then Some (CHR 0x08)
      else if e = CHR ''f'' then Some (CHR 0x0C)
      else if e = CHR ''n'' then Some (CHR 0x0A)
      else if e = CHR ''r'' then Some (CHR 0x0D)
      else if e = CHR ''t'' then Some (CHR 0x09)
      else None)"

definition emit :: "string \<Rightarrow> (string \<times> string) option \<Rightarrow> (string \<times> string) option" where
  "emit out res = map_option (\<lambda>(x, rest). (out @ x, rest)) res"

text \<open>
  A string, read from behind its opening quote: the decoded bytes and the input behind the
  closing quote.  A control character is an error; so is an unknown escape.  A \<open>\u\<close>
  escape is written in UTF-8, a surrogate pair as one rune, a lone surrogate as U+FFFD.
  Bytes from 0x80 on are copied (the replacement of invalid UTF-8 by U+FFFD is left out).
\<close>

fun scan_string :: "string \<Rightarrow> (string \<times> string) option" where
  "scan_string [] = None"
| "scan_string (c # cs) =
     (if c = CHR 0x22 then Some ([], cs)
      else if c = CHR 0x5C then
        (case cs of
           [] \<Rightarrow> None
         | e # es \<Rightarrow>
             if e = CHR ''u'' then
               (case getu4 es of
                  None \<Rightarrow> None
                | Some rr \<Rightarrow>
                    if 0xD800 \<le> rr \<and> rr < 0xE000 then
                      (case (if take 2 (drop 4 es) = [CHR 0x5C, CHR ''u'']
                             then getu4 (drop 6 es) else None) of
                         None \<Rightarrow> emit (EncodeRune 0xFFFD) (scan_string (drop 4 es))
                       | Some rr1 \<Rightarrow>
                           if rr < 0xDC00 \<and> 0xDC00 \<le> rr1 \<and> rr1 < 0xE000
                           then emit (EncodeRune
                                        ((rr - 0xD800) * 1024 + (rr1 - 0xDC00) + 0x10000))
                                  (scan_string (drop 10 es))
                           else emit (EncodeRune 0xFFFD) (scan_string (drop 4 es)))
                    else emit (EncodeRune rr) (scan_string (drop 4 es)))
             else
               (case unescape e of
                  None \<Rightarrow> None
                | Some x \<Rightarrow> emit [x] (scan_string es)))
      else if c < CHR 0x20 then None
      else emit [c] (scan_string cs))"

text \<open>One or more digits.\<close>

definition scan_digits :: "string \<Rightarrow> (string \<times> string) option" where
  "scan_digits s =
     (if takeWhile is_digit s = [] then None
      else Some (takeWhile is_digit s, dropWhile is_digit s))"

text \<open>An optional fraction: a dot and digits.\<close>

definition scan_fraction :: "string \<Rightarrow> (string \<times> string) option" where
  "scan_fraction s =
     (case s of
        [] \<Rightarrow> Some ([], s)
      | c # t \<Rightarrow>
          if c = CHR ''.'' then map_option (\<lambda>(ds, r). (c # ds, r)) (scan_digits t)
          else Some ([], s))"

text \<open>An optional exponent: \<open>e\<close> or \<open>E\<close>, an optional sign, and digits.\<close>

definition scan_exponent :: "string \<Rightarrow> (string \<times> string) option" where
  "scan_exponent s =
     (case s of
        [] \<Rightarrow> Some ([], s)
      | c # t \<Rightarrow>
          if c = CHR ''e'' \<or> c = CHR ''E'' then
            (case t of
               [] \<Rightarrow> None
             | c' # t' \<Rightarrow>
                 if c' = CHR ''+'' \<or> c' = CHR ''-''
                 then map_option (\<lambda>(ds, r). (c # c' # ds, r)) (scan_digits t')
                 else map_option (\<lambda>(ds, r). (c # ds, r)) (scan_digits t))
          else Some ([], s))"

text \<open>
  A number literal: an optional minus sign, an integer part without a leading zero (unless
  it is the digit 0 alone), a fraction, an exponent.
\<close>

definition scan_number :: "string \<Rightarrow> (string \<times> string) option" where
  "scan_number s =
     (let sign = (case s of c # t \<Rightarrow> if c = CHR ''-'' then [c] else [] | [] \<Rightarrow> [])
      in case scan_digits (drop (length sign) s) of
           None \<Rightarrow> None
         | Some (ds, s2) \<Rightarrow>
             if 1 < length ds \<and> hd ds = CHR ''0'' then None
             else
               (case scan_fraction s2 of
                  None \<Rightarrow> None
                | Some (frac, s3) \<Rightarrow>
                    (case scan_exponent s3 of
                       None \<Rightarrow> None
                     | Some (ex, s4) \<Rightarrow> Some (sign @ ds @ frac @ ex, s4))))"

text \<open>What is read is taken from the front of the input.\<close>

lemma skip_space_Cons: "skip_space s = c # t \<Longrightarrow> length t < length s"
  using length_dropWhile_le [of is_space s] by (simp add: skip_space_def)

lemma emit_Some: "emit out res = Some (x, r) \<Longrightarrow> \<exists>y. res = Some (y, r)"
  by (auto simp: emit_def)

lemma scan_string_shorter: "scan_string s = Some (x, r) \<Longrightarrow> length r < length s"
proof (induction s arbitrary: x r rule: scan_string.induct)
  case 1
  then show ?case by simp
next
  case (2 c cs)
  show ?case
    using "2.prems" "2.IH"
    by (fastforce split: if_splits list.splits option.splits dest!: emit_Some)
qed

text \<open>The scanner of \<open>encoding/json\<close> refuses more than 10000 open arrays and objects.\<close>

definition maxNestingDepth :: nat where
  "maxNestingDepth = 10000"

text \<open>
  A value, the elements of an array behind its bracket, and the members of an object
  behind its brace; \<open>d\<close> counts the arrays and objects that are open.  Each returns what
  it read and the rest of the input.  A value read is never empty, so the two tests
  \<open>length r < length s\<close> on the result of \<open>parse_value\<close> always succeed
  (lemma \<open>parse_shorter\<close>); they make the recursion well-founded.
\<close>

function parse_value :: "nat \<Rightarrow> string \<Rightarrow> (json \<times> string) option"
  and parse_elements :: "nat \<Rightarrow> json list \<Rightarrow> string \<Rightarrow> (json \<times> string) option"
  and parse_members ::
    "nat \<Rightarrow> (string \<times> json) list \<Rightarrow> string \<Rightarrow> (json \<times> string) option"
where
  "parse_value d s =
     (case skip_space s of
        [] \<Rightarrow> None
      | c # t \<Rightarrow>
          if c = CHR ''{'' then
            (if maxNestingDepth \<le> d then None
             else case skip_space t of
                    [] \<Rightarrow> None
                  | c' # t' \<Rightarrow>
                      if c' = CHR ''}'' then Some (JObject [], t')
                      else parse_members (Suc d) [] (c' # t'))
          else if c = CHR ''['' then
            (if maxNestingDepth \<le> d then None
             else case skip_space t of
                    [] \<Rightarrow> None
                  | c' # t' \<Rightarrow>
                      if c' = CHR '']'' then Some (JArray [], t')
                      else parse_elements (Suc d) [] (c' # t'))
          else if c = CHR 0x22 then map_option (\<lambda>(x, r). (JString x, r)) (scan_string t)
          else if take 4 (c # t) = ''true'' then Some (JBool True, drop 3 t)
          else if take 5 (c # t) = ''false'' then Some (JBool False, drop 4 t)
          else if take 4 (c # t) = ''null'' then Some (JNull, drop 3 t)
          else map_option (\<lambda>(x, r). (JNumber x, r)) (scan_number (c # t)))"
| "parse_elements d acc s =
     (case parse_value d s of
        None \<Rightarrow> None
      | Some (v, r) \<Rightarrow>
          if length r < length s then
            (case skip_space r of
               [] \<Rightarrow> None
             | c # t \<Rightarrow>
                 if c = CHR '','' then parse_elements d (acc @ [v]) t
                 else if c = CHR '']'' then Some (JArray (acc @ [v]), t)
                 else None)
          else None)"
| "parse_members d acc s =
     (case skip_space s of
        [] \<Rightarrow> None
      | c # t \<Rightarrow>
          if c \<noteq> CHR 0x22 then None
          else
            (case scan_string t of
               None \<Rightarrow> None
             | Some (k, r) \<Rightarrow>
                 (case skip_space r of
                    [] \<Rightarrow> None
                  | c1 # r1 \<Rightarrow>
                      if c1 \<noteq> CHR '':'' then None
                      else
                        (case parse_value d r1 of
                           None \<Rightarrow> None
                         | Some (v, r2) \<Rightarrow>
                             if length r2 < length r1 then
                               (case skip_space r2 of
                                  [] \<Rightarrow> None
                                | c2 # r3 \<Rightarrow>
                                    if c2 = CHR '','' then parse_members d (acc @ [(k, v)]) r3
                                    else if c2 = CHR ''}''
                                    then Some (JObject (acc @ [(k, v)]), r3)
                                    else None)
                             else None))))"
  by pat_completeness auto

termination
  by (relation "measure (\<lambda>x. case x of
           Inl (d, s) \<Rightarrow> 2 * length s
         | Inr (Inl (d, acc, s)) \<Rightarrow> 2 * length s + 1
         | Inr (Inr (d, acc, s)) \<Rightarrow> 2 * length s + 1)")
     (auto dest!: skip_space_Cons scan_string_shorter)

declare parse_value.simps [simp del] parse_elements.simps [simp del]
  parse_members.simps [simp del]

text \<open>A document is one value with nothing but white space behind it.\<close>

definition json_parse :: "string \<Rightarrow> json option" where
  "json_parse s =
     (case parse_value 0 s of
        None \<Rightarrow> None
      | Some (v, r) \<Rightarrow> if skip_space r = [] then Some v else None)"

subsection \<open>Decoding a document into Go values\<close>

text \<open>
  \<open>json.Unmarshal\<close> decodes into the value its target already holds.  A value of the
  wrong kind is an \<open>UnmarshalTypeError\<close>; the decoder goes on after it, but
  \<open>Unmarshal\<close> then returns the first such error, and both callers drop what was decoded,
  so the model stops at it.
\<close>

definition decode_bool :: "json \<Rightarrow> bool \<Rightarrow> go_error + bool" where
  "decode_bool j cur =
     (case j of
        JNull \<Rightarrow> Inr cur
      | JBool b \<Rightarrow> Inr b
      | _ \<Rightarrow> Inl (UnmarshalTypeError ''bool''))"

definition decode_string :: "json \<Rightarrow> string \<Rightarrow> go_error + string" where
  "decode_string j cur =
     (case j of
        JNull \<Rightarrow> Inr cur
      | JString s \<Rightarrow> Inr s
      | _ \<Rightarrow> Inl (UnmarshalTypeError ''string''))"

text \<open>
  An \<open>int\<close> takes a number literal that \<open>strconv.ParseInt(lit, 10, 64)\<close> accepts: digits
  behind an optional minus sign, no fraction and no exponent, within 64 bits.
\<close>

definition decode_int :: "json \<Rightarrow> int \<Rightarrow> go_error + int" where
  "decode_int j cur =
     (case j of
        JNull \<Rightarrow> Inr cur
      | JNumber lit \<Rightarrow>
          (case Atoi lit of
             Inl e \<Rightarrow> Inl (UnmarshalTypeError ''int'')
           | Inr n \<Rightarrow> Inr n)
      | _ \<Rightarrow> Inl (UnmarshalTypeError ''int''))"

text \<open>
  A pointer field: \<open>null\<close> makes it \<open>nil\<close>; any other value is decoded into what it
  points to, allocated with the zero value if it was \<open>nil\<close>.
\<close>

definition decode_ptr ::
  "(json \<Rightarrow> 'a \<Rightarrow> go_error + 'a) \<Rightarrow> 'a \<Rightarrow> json \<Rightarrow> 'a option \<Rightarrow> go_error + 'a option" where
  "decode_ptr dec zero j cur =
     (case j of
        JNull \<Rightarrow> Inr None
      | _ \<Rightarrow>
          (case dec j (case cur of None \<Rightarrow> zero | Some x \<Rightarrow> x) of
             Inl e \<Rightarrow> Inl e
           | Inr x \<Rightarrow> Inr (Some x)))"

text \<open>
  A struct field is found by the key itself or, failing that, by the key with the case of
  its ASCII letters ignored.  (The two letters outside of ASCII that Unicode folds to \<open>k\<close>
  and to \<open>s\<close> are not taken into account.)
\<close>

definition lower :: "char \<Rightarrow> char" where
  "lower c = (if CHR ''A'' \<le> c \<and> c \<le> CHR ''Z'' then char_of (of_char c + (32::nat)) else c)"

definition find_field :: "string list \<Rightarrow> string \<Rightarrow> string option" where
  "find_field names key =
     (if key \<in> set names then Some key
      else find (\<lambda>n. map lower n = map lower key) names)"

text \<open>
  The members of an object are decoded in order, each into the field its key names; a key
  that names no field is skipped.
\<close>

fun decode_members ::
  "(string \<Rightarrow> json \<Rightarrow> 'a \<Rightarrow> go_error + 'a) \<Rightarrow> (string \<times> json) list \<Rightarrow> 'a \<Rightarrow> go_error + 'a" where
  "decode_members field [] cur = Inr cur"
| "decode_members field ((k, v) # ms) cur =
     (case field k v cur of
        Inl e \<Rightarrow> Inl e
      | Inr cur' \<Rightarrow> decode_members field ms cur')"

definition decode_struct ::
  "string \<Rightarrow> (string \<Rightarrow> json \<Rightarrow> 'a \<Rightarrow> go_error + 'a) \<Rightarrow> json \<Rightarrow> 'a \<Rightarrow> go_error + 'a" where
  "decode_struct name field j cur =
     (case j of
        JNull \<Rightarrow> Inr cur
      | JObject ms \<Rightarrow> decode_members field ms cur
      | _ \<Rightarrow> Inl (UnmarshalTypeError name))"

text \<open>
  A slice, as the list of its elements (a \<open>nil\<close> slice and an empty one are both the
  empty list): \<open>null\<close> makes it \<open>nil\<close>; the elements of an array are decoded in order, the
  one at an index the slice already has into the element that is there, a further one into
  a zero value.  (An element left behind the length of a slice that was cut short by an
  earlier array is not kept apart from a zero value.)
\<close>

fun decode_elements ::
  "(json \<Rightarrow> 'a \<Rightarrow> go_error + 'a) \<Rightarrow> 'a \<Rightarrow> json list \<Rightarrow> 'a list \<Rightarrow> go_error + 'a list" where
  "decode_elements dec zero [] cur = Inr []"
| "decode_elements dec zero (v # vs) cur =
     (case dec v (case cur of [] \<Rightarrow> zero | x # xs \<Rightarrow> x) of
        Inl e \<Rightarrow> Inl e
      | Inr x \<Rightarrow>
          (case decode_elements dec zero vs (tl cur) of
             Inl e \<Rightarrow> Inl e
           | Inr xs \<Rightarrow> Inr (x # xs)))"

definition decode_slice ::
  "string \<Rightarrow> (json \<Rightarrow> 'a \<Rightarrow> go_error + 'a) \<Rightarrow> 'a \<Rightarrow> json \<Rightarrow> 'a list \<Rightarrow> go_error + 'a list" where
  "decode_slice name dec zero j cur =
     (case j of
        JNull \<Rightarrow> Inr []
      | JArray vs \<Rightarrow> decode_elements dec zero vs cur
      | _ \<Rightarrow> Inl (UnmarshalTypeError name))"

text \<open>Storing a decoded field.\<close>

definition store :: "go_error + 'b \<Rightarrow> ('b \<Rightarrow> 'a) \<Rightarrow> go_error + 'a" where
  "store res upd = (case res of Inl e \<Rightarrow> Inl e | Inr x \<Rightarrow> Inr (upd x))"

text \<open>
  \<open>json.Unmarshal(data, &v)\<close>: the input is checked to be one JSON document, then decoded
  into \<open>v\<close>.
\<close>

definition json_Unmarshal ::
  "string \<Rightarrow> (json \<Rightarrow> 'a \<Rightarrow> go_error + 'a) \<Rightarrow> 'a \<Rightarrow> go_error + 'a" where
  "json_Unmarshal data dec v =
     (case json_parse data of
        None \<Rightarrow> Inl SyntaxError
      | Some j \<Rightarrow> dec j v)"

section \<open>Package \<open>pangolin\<close>\<close>

record Pangolin =
  token :: string
  host :: string
  org :: string

text \<open>A pointer field is \<open>None\<close> when it is \<open>nil\<close>.\<close>

record PangolinResource =
  ResourceID :: "int option"
  Name :: "string option"
  Enabled :: "bool option"
  FullDomain :: "string option"

text \<open>
  The fields \<open>ResourceID\<close> and \<open>Enabled\<close> of \<open>PangolinRule\<close> carry a suffix, the two names
  being taken by \<open>PangolinResource\<close>.
\<close>

record PangolinRule =
  RuleID :: "int option"
  ResourceID_rule :: "int option"
  Enabled_rule :: "bool option"
  Priority :: "int option"
  Action :: "string option"
  Match :: "string option"
  Value :: "string option"

record PangolinResources =
  Resources :: "PangolinResource list"

record 'a PangolinResponse =
  Data :: 'a
  Success :: bool
  Error :: bool
  Message :: string
  Status :: int

text \<open>The zero values of the structs.\<close>

definition zero_PangolinResource :: PangolinResource where
  "zero_PangolinResource =
     \<lparr>ResourceID = None, Name = None, Enabled = None, FullDomain = None\<rparr>"

definition zero_PangolinRule :: PangolinRule where
  "zero_PangolinRule =
     \<lparr>RuleID = None, ResourceID_rule = None, Enabled_rule = None, Priority = None,
      Action = None, Match = None, Value = None\<rparr>"

definition zero_PangolinResources :: PangolinResources where
  "zero_PangolinResources = \<lparr>Resources = []\<rparr>"

definition zero_PangolinResponse :: "'a \<Rightarrow> 'a PangolinResponse" where
  "zero_PangolinResponse d =
     \<lparr>Data = d, Success = False, Error = False, Message = [], Status = 0\<rparr>"

subsection \<open>The struct tags, read by \<open>encoding/json\<close>\<close>

definition PangolinResource_field ::
  "string \<Rightarrow> json \<Rightarrow> PangolinResource \<Rightarrow> go_error + PangolinResource" where
  "PangolinResource_field key v cur =
     (case find_field [''resourceId'', ''name'', ''enabled'', ''fullDomain''] key of
        None \<Rightarrow> Inr cur
      | Some f \<Rightarrow>
          if f = ''resourceId''
            then store (decode_ptr decode_int 0 v (ResourceID cur)) (\<lambda>x. cur\<lparr>ResourceID := x\<rparr>)
          else if f = ''name''
            then store (decode_ptr decode_string [] v (Name cur)) (\<lambda>x. cur\<lparr>Name := x\<rparr>)
          else if f = ''enabled''
            then store (decode_ptr decode_bool False v (Enabled cur)) (\<lambda>x. cur\<lparr>Enabled := x\<rparr>)
          else store (decode_ptr decode_string [] v (FullDomain cur))
                 (\<lambda>x. cur\<lparr>FullDomain := x\<rparr>))"

definition decode_PangolinResource ::
  "json \<Rightarrow> PangolinResource \<Rightarrow> go_error + PangolinResource" where
  "decode_PangolinResource = decode_struct ''PangolinResource'' PangolinResource_field"

definition PangolinRule_field ::
  "string \<Rightarrow> json \<Rightarrow> PangolinRule \<Rightarrow> go_error + PangolinRule" where
  "PangolinRule_field key v cur =
     (case find_field [''ruleId'', ''resourceId'', ''enabled'', ''priority'', ''action'',
                       ''match'', ''value''] key of
        None \<Rightarrow> Inr cur
      | Some f \<Rightarrow>
          if f = ''ruleId''
            then store (decode_ptr decode_int 0 v (RuleID cur)) (\<lambda>x. cur\<lparr>RuleID := x\<rparr>)
          else if f = ''resourceId''
            then store (decode_ptr decode_int 0 v (ResourceID_rule cur))
                   (\<lambda>x. cur\<lparr>ResourceID_rule := x\<rparr>)
          else if f = ''enabled''
            then store (decode_ptr decode_bool False v (Enabled_rule cur))
                   (\<lambda>x. cur\<lparr>Enabled_rule := x\<rparr>)
          else if f = ''priority''
            then store (decode_ptr decode_int 0 v (Priority cur)) (\<lambda>x. cur\<lparr>Priority := x\<rparr>)
          else if f = ''action''
            then store (decode_ptr decode_string [] v (Action cur)) (\<lambda>x. cur\<lparr>Action := x\<rparr>)
          else if f = ''match''
            then store (decode_ptr decode_string [] v (Match cur)) (\<lambda>x. cur\<lparr>Match := x\<rparr>)
          else store (decode_ptr decode_string [] v (Value cur)) (\<lambda>x. cur\<lparr>Value := x\<rparr>))"

definition decode_PangolinRule :: "json \<Rightarrow> PangolinRule \<Rightarrow> go_error + PangolinRule" where
  "decode_PangolinRule = decode_struct ''PangolinRule'' PangolinRule_field"

definition PangolinResources_field ::
  "string \<Rightarrow> json \<Rightarrow> PangolinResources \<Rightarrow> go_error + PangolinResources" where
  "PangolinResources_field key v cur =
     (case find_field [''resources''] key of
        None \<Rightarrow> Inr cur
      | Some f \<Rightarrow>
          store (decode_slice ''[]PangolinResource'' decode_PangolinResource
                   zero_PangolinResource v (Resources cur))
            (\<lambda>x. cur\<lparr>Resources := x\<rparr>))"

definition decode_PangolinResources ::
  "json \<Rightarrow> PangolinResources \<Rightarrow> go_error + PangolinResources" where
  "decode_PangolinResources = decode_struct ''PangolinResources'' PangolinResources_field"

definition PangolinResponse_field ::
  "(json \<Rightarrow> 'a \<Rightarrow> go_error + 'a) \<Rightarrow> string \<Rightarrow> json \<Rightarrow> 'a PangolinResponse \<Rightarrow>
     go_error + 'a PangolinResponse" where
  "PangolinResponse_field dec key v cur =
     (case find_field [''data'', ''success'', ''error'', ''message'', ''status''] key of
        None \<Rightarrow> Inr cur
      | Some f \<Rightarrow>
          if f = ''data'' then store (dec v (Data cur)) (\<lambda>x. cur\<lparr>Data := x\<rparr>)
          else if f = ''success''
            then store (decode_bool v (Success cur)) (\<lambda>x. cur\<lparr>Success := x\<rparr>)
          else if f = ''error'' then store (decode_bool v (Error cur)) (\<lambda>x. cur\<lparr>Error := x\<rparr>)
          else if f = ''message''
            then store (decode_string v (Message cur)) (\<lambda>x. cur\<lparr>Message := x\<rparr>)
          else store (decode_int v (Status cur)) (\<lambda>x. cur\<lparr>Status := x\<rparr>))"

definition decode_PangolinResponse ::
  "(json \<Rightarrow> 'a \<Rightarrow> go_error + 'a) \<Rightarrow> json \<Rightarrow> 'a PangolinResponse \<Rightarrow>
     go_error + 'a PangolinResponse" where
  "decode_PangolinResponse dec = decode_struct ''PangolinResponse'' (PangolinResponse_field dec)"

text \<open>
  Writing a string, \<open>encoding/json\<close> walks it with \<open>utf8.DecodeRuneInString\<close>.  The
  size of the encoding that starts the input is 1 for an ASCII byte, and 2 to 4 for a lead
  byte from 0xC2 to 0xF4 that is followed by the continuation bytes it asks for (the first
  of them in the narrower range that excludes over-long forms, surrogates and values past
  U+10FFFF); any other input starts with an invalid byte.
\<close>

definition continuation :: "char \<Rightarrow> bool" where
  "continuation c = (CHR 0x80 \<le> c \<and> c \<le> CHR 0xBF)"

definition rune_size :: "string \<Rightarrow> nat option" where
  "rune_size s =
     (case s of
        [] \<Rightarrow> None
      | c0 # rest \<Rightarrow>
          if c0 < CHR 0x80 then Some 1
          else if c0 < CHR 0xC2 \<or> CHR 0xF4 < c0 then None
          else
            (let sz = (if c0 \<le> CHR 0xDF then 2 else if c0 \<le> CHR 0xEF then 3 else 4 :: nat);
                 lo = (if c0 = CHR 0xE0 then CHR 0xA0 else if c0 = CHR 0xF0 then CHR 0x90
                       else CHR 0x80);
                 hi = (if c0 = CHR 0xED then CHR 0x9F else if c0 = CHR 0xF4 then CHR 0x8F
                       else CHR 0xBF)
             in if length s < sz then None
                else if rest ! 0 < lo \<or> hi < rest ! 0 then None
                else if sz \<le> 2 then Some 2
                else if \<not> continuation (rest ! 1) then None
                else if sz \<le> 3 then Some 3
                else if \<not> continuation (rest ! 2) then None
                else Some 4))"

text \<open>
  The string that the written document holds: every valid encoding is kept, and every
  invalid byte is written as U+FFFD on its own.  (The escapes that \<open>encoding/json\<close> uses
  in the bytes it writes denote the same string.)
\<close>

fun coerce_utf8 :: "string \<Rightarrow> string" where
  "coerce_utf8 [] = []"
| "coerce_utf8 (c # cs) =
     (case rune_size (c # cs) of
        None \<Rightarrow> [CHR 0xEF, CHR 0xBF, CHR 0xBD] @ coerce_utf8 cs
      | Some n \<Rightarrow> c # take (n - 1) cs @ coerce_utf8 (drop (n - 1) cs))"

declare coerce_utf8.simps [simp del]

text \<open>
  \<open>json.Marshal(rule)\<close>, as the document it writes: the fields in the order of the struct,
  a \<open>nil\<close> pointer left out by \<open>omitempty\<close>, any other pointer written with the value it
  points to (also when that is 0, \<open>false\<close> or the empty string), a string coerced to valid
  UTF-8.  For this struct \<open>Marshal\<close> returns no error.
\<close>

definition omitempty :: "string \<Rightarrow> ('a \<Rightarrow> json) \<Rightarrow> 'a option \<Rightarrow> (string \<times> json) list" where
  "omitempty key enc p = (case p of None \<Rightarrow> [] | Some x \<Rightarrow> [(key, enc x)])"

definition json_Marshal :: "PangolinRule \<Rightarrow> json" where
  "json_Marshal rule =
     JObject
       (omitempty ''ruleId'' (\<lambda>i. JNumber (Itoa i)) (RuleID rule) @
        omitempty ''resourceId'' (\<lambda>i. JNumber (Itoa i)) (ResourceID_rule rule) @
        omitempty ''enabled'' JBool (Enabled_rule rule) @
        omitempty ''priority'' (\<lambda>i. JNumber (Itoa i)) (Priority rule) @
        omitempty ''action'' (\<lambda>s. JString (coerce_utf8 s)) (Action rule) @
        omitempty ''match'' (\<lambda>s. JString (coerce_utf8 s)) (Match rule) @
        omitempty ''value'' (\<lambda>s. JString (coerce_utf8 s)) (Value rule))"

subsection \<open>The client\<close>

text \<open>
  The \<open>*http.Request\<close> the client builds: method, URL, header (keys in the order of their
  first \<open>Add\<close>, each with its values) and body.  The body is the document that
  \<open>json.Marshal\<close> wrote, or nothing.
\<close>

record Outgoing =
  out_Method :: string
  out_URL :: string
  out_Header :: "(string \<times> string list) list"
  out_Body :: "json option"

text \<open>
  The \<open>*http.Response\<close>, as far as the client reads it: \<open>res.StatusCode\<close>,
  \<open>res.Status\<close>, and what \<open>io.ReadAll(res.Body)\<close> returns.
\<close>

record Response =
  StatusCode :: int
  Status_text :: string
  ReadAll_Body :: "go_error + string"

text \<open>
  What lies outside of the program: \<open>url_Parse\<close> is the error, if any, that
  \<open>http.NewRequest\<close> returns for a URL (both methods it is called with are valid);
  \<open>Do\<close> is the round trip of \<open>httpClient.Do\<close>, with its timeout of two seconds.
\<close>

record upstream =
  url_Parse :: "string \<Rightarrow> go_error option"
  Do :: "Outgoing \<Rightarrow> go_error + Response"

definition http_NewRequest :: "upstream \<Rightarrow> string \<Rightarrow> string \<Rightarrow> json option \<Rightarrow> go_error + Outgoing" where
  "http_NewRequest up method url body =
     (case url_Parse up url of
        Some err \<Rightarrow> Inl err
      | None \<Rightarrow> Inr \<lparr>out_Method = method, out_URL = url, out_Header = [], out_Body = body\<rparr>)"

text \<open>\<open>req.Header.Add(key, value)\<close>: the value is appended under the canonical key.\<close>

fun Header_Add :: "string \<Rightarrow> string \<Rightarrow> (string \<times> string list) list \<Rightarrow> (string \<times> string list) list" where
  "Header_Add key v [] = [(CanonicalMIMEHeaderKey key, [v])]"
| "Header_Add key v ((k, vs) # h) =
     (if k = CanonicalMIMEHeaderKey key then (k, vs @ [v]) # h
      else (k, vs) # Header_Add key v h)"

definition baseURL :: "Pangolin \<Rightarrow> string" where
  "baseURL p = host p @ ''/v1''"

text \<open>
  \<open>p.request(req)\<close>.  The result is paired with the requests that went out, here the one
  request.
\<close>

definition request :: "Pangolin \<Rightarrow> upstream \<Rightarrow> Outgoing \<Rightarrow> (go_error + Response) \<times> Outgoing list" where
  "request p up req =
     (let req' = req\<lparr>out_Header :=
                   Header_Add ''Content-Type'' ''application/json''
                     (Header_Add ''Authorization'' (''Bearer '' @ token p) (out_Header req))\<rparr>
      in (Do up req', [req']))"

definition GetResources ::
  "Pangolin \<Rightarrow> upstream \<Rightarrow> (go_error + PangolinResources) \<times> Outgoing list" where
  "GetResources p up =
     (let url = baseURL p @ ''/org/'' @ org p @ ''/resources'' in
      case http_NewRequest up ''GET'' url None of
        Inl err \<Rightarrow> (Inl err, [])
      | Inr req \<Rightarrow>
          (case request p up req of
             (Inl err, sent) \<Rightarrow> (Inl err, sent)
           | (Inr res, sent) \<Rightarrow>
               if StatusCode res \<noteq> 200
               then (Inl (errors_New (''error status code: '' @ Status_text res)), sent)
               else
                 (case ReadAll_Body res of
                    Inl err \<Rightarrow> (Inl err, sent)
                  | Inr body \<Rightarrow>
                      (case json_Unmarshal body
                              (decode_PangolinResponse decode_PangolinResources)
                              (zero_PangolinResponse zero_PangolinResources) of
                         Inl err \<Rightarrow> (Inl err, sent)
                       | Inr resp \<Rightarrow> (Inr (Data resp), sent)))))"

definition CreateRule ::
  "Pangolin \<Rightarrow> upstream \<Rightarrow> PangolinRule \<Rightarrow> int \<Rightarrow> (go_error + PangolinRule) \<times> Outgoing list" where
  "CreateRule p up rule resourceID =
     (let url = baseURL p @ ''/resource/'' @ Itoa resourceID @ ''/rule'';
          reqBody = json_Marshal rule in
      case http_NewRequest up ''PUT'' url (Some reqBody) of
        Inl err \<Rightarrow> (Inl err, [])
      | Inr req \<Rightarrow>
          (case request p up req of
             (Inl err, sent) \<Rightarrow> (Inl err, sent)
           | (Inr res, sent) \<Rightarrow>
               (case ReadAll_Body res of
                  Inl err \<Rightarrow> (Inl err, sent)
                | Inr body \<Rightarrow>
                    (case json_Unmarshal body
                            (decode_PangolinResponse decode_PangolinRule)
                            (zero_PangolinResponse zero_PangolinRule) of
                       Inl err \<Rightarrow> (Inl err, sent)
                     | Inr resp \<Rightarrow>
                         if Error resp
                         then (Inl (errors_New (''error: '' @ Message resp)), sent)
                         else (Inr (Data resp), sent)))))"

section \<open>The handler of \<open>PUT /register/{id}\<close>\<close>

text \<open>
  \<open>handleRegisterIP(pangolinClient)\<close>: the writer after the handler has run, and the
  requests that went to the upstream.  The handler does not read the body of the request.
\<close>

definition handleRegisterIP ::
  "Pangolin \<Rightarrow> upstream \<Rightarrow> ResponseWriter \<Rightarrow> Request \<Rightarrow> ResponseWriter \<times> Outgoing list" where
  "handleRegisterIP pangolinClient up w r =
     (let pangolinRule =
            \<lparr>RuleID = None, ResourceID_rule = None, Enabled_rule = Some True,
             Priority = Some 10, Action = Some ''ACCEPT'', Match = Some ''IP'',
             Value = Some (Header_Get (Header r) ''X-Real-IP'')\<rparr>
      in case Atoi (PathValue r ''id'') of
           Inl err \<Rightarrow> (http_Error w (Error_text err) 500, [])
         | Inr resourceID \<Rightarrow>
             (case CreateRule pangolinClient up pangolinRule resourceID of
                (Inl err, sent) \<Rightarrow> (http_Error w (Error_text err) 500, sent)
              | (Inr created, sent) \<Rightarrow> (fmt_Fprintln w ''Success'', sent)))"

section \<open>Starting and stopping the server (\<open>run\<close> and \<open>main\<close>)\<close>

text \<open>
  What \<open>run\<close> meets at run time.  \<open>os_LookupEnv\<close> is the environment of the process.  The
  other fields describe the moment at which the \<open>select\<close> of \<open>run\<close> can proceed:
  \<open>ListenAndServe\<close> is the error that \<open>server.ListenAndServe()\<close> has returned in the
  goroutine by then (\<open>None\<close> while it is still serving); \<open>ctx_Done\<close> tells whether
  SIGINT or SIGTERM has cancelled the context by then; \<open>select_errChan\<close> is the choice
  that Go's \<open>select\<close> makes when both of its cases are ready.  \<open>Shutdown\<close> is what
  \<open>server.Shutdown(ctx)\<close> returns.
\<close>

record world =
  os_LookupEnv :: "string \<Rightarrow> string option"
  ListenAndServe :: "go_error option"
  ctx_Done :: bool
  select_errChan :: bool
  Shutdown :: "go_error option"

text \<open>
  The goroutine: \<open>if err := server.ListenAndServe(); err != nil && err !=
  http.ErrServerClosed { errChan <- err }\<close>.  The value is what the channel holds.
\<close>

definition errChan :: "world \<Rightarrow> go_error option" where
  "errChan wd =
     (case ListenAndServe wd of
        None \<Rightarrow> None
      | Some err \<Rightarrow> if err \<noteq> ErrServerClosed then Some err else None)"

text \<open>The case \<open><-ctx.Done()\<close> of the \<open>select\<close>.\<close>

definition shutting_down :: "world \<Rightarrow> go_error option" where
  "shutting_down wd =
     (case Shutdown wd of
        Some err \<Rightarrow> Some (fmt_Errorf_w ''server shutdown: '' err)
      | None \<Rightarrow> None)"

text \<open>
  The \<open>select\<close> of \<open>run\<close> over \<open><-errChan\<close> and \<open><-ctx.Done()\<close>: it blocks while
  neither is ready (\<open>None\<close>), takes the one that is ready, and chooses when both are.
\<close>

datatype select_case = From_errChan go_error | From_Done

definition select :: "world \<Rightarrow> select_case option" where
  "select wd =
     (case errChan wd of
        None \<Rightarrow> if ctx_Done wd then Some From_Done else None
      | Some err \<Rightarrow>
          if ctx_Done wd \<and> \<not> select_errChan wd then Some From_Done
          else Some (From_errChan err))"

text \<open>
  \<open>run(ctx, w, lookupEnv, version)\<close>.  The result is \<open>None\<close> when \<open>run\<close> does not return
  (its \<open>select\<close> blocks for ever), and otherwise \<open>Some\<close> of the error returned,
  \<open>Some None\<close> standing for \<open>nil\<close>.  The log lines that \<open>run\<close> writes to \<open>w\<close> are left
  out.
\<close>

definition run :: "(string \<Rightarrow> string option) \<Rightarrow> string \<Rightarrow> world \<Rightarrow> go_error option option" where
  "run lookupEnv version wd =
     (case lookupEnv ''PORT'' of
        None \<Rightarrow> Some (Some (errors_New ''failed to find env PORT''))
      | Some portEnv \<Rightarrow>
          (case Atoi portEnv of
             Inl err \<Rightarrow> Some (Some err)
           | Inr port \<Rightarrow>
               if os_LookupEnv wd ''PANGOLIN_TOKEN'' = None
                 then Some (Some (errors_New ''failed to find env PANGOLIN_TOKEN''))
               else if os_LookupEnv wd ''PANGOLIN_HOST'' = None
                 then Some (Some (errors_New ''failed to find env PANGOLIN_HOST''))
               else if os_LookupEnv wd ''PANGOLIN_ORG'' = None
                 then Some (Some (errors_New ''failed to find env PANGOLIN_ORG''))
               else
                 (case select wd of
                    None \<Rightarrow> None
                  | Some (From_errChan err) \<Rightarrow> Some (Some err)
                  | Some From_Done \<Rightarrow> Some (shutting_down wd))))"

text \<open>
  \<open>main\<close>: what the process writes to the error stream and its exit code, when it exits.
  \<open>main\<close> hands \<open>os.LookupEnv\<close> to \<open>run\<close>.
\<close>

definition main :: "string \<Rightarrow> world \<Rightarrow> (string \<times> int) option" where
  "main Version wd =
     (case run (os_LookupEnv wd) Version wd of
        None \<Rightarrow> None
      | Some None \<Rightarrow> Some ([], 0)
      | Some (Some err) \<Rightarrow> Some (Error_text err @ [CHR 0x0A], 1))"

section \<open>Example inputs\<close>

text \<open>A handler that panics before it touches the writer.\<close>

definition panics_at_once :: "Request \<Rightarrow> call list \<times> outcome" where
  "panics_at_once r = ([], Panics (PanicString ''boom''))"

text \<open>A handler that sends a status and some bytes, and then panics.\<close>

definition panics_after_status :: "Request \<Rightarrow> call list \<times> outcome" where
  "panics_after_status r =
     ([WriteHeaderCall 200, WriteCall ''partial''], Panics (PanicString ''boom''))"

text \<open>A handler that answers and returns.\<close>

definition answers_ok :: "Request \<Rightarrow> call list \<times> outcome" where
  "answers_ok r = ([WriteHeaderCall 200, WriteCall ''ok''], Returns)"

definition no_values :: "string \<Rightarrow> string list" where
  "no_values k = []"

definition no_wildcard :: "string \<Rightarrow> string" where
  "no_wildcard k = []"

definition get_root :: Request where
  "get_root = \<lparr>Method = ''GET'', URL_Path = ''/'', URL_RawQuery = [], Header = no_values,
     RemoteAddr = ''10.0.0.1:4000'', PathValue = no_wildcard, Body = []\<rparr>"

text \<open>The bodies of three upstream responses.\<close>

definition duplicate_rule_body :: string where
  \<open>duplicate_rule_body = ''{"error":true,"message":"duplicate rule"}''\<close>

definition listing_body :: string where
  \<open>listing_body = ''{"data":{"resources":[{"resourceId":1,"name":"svc","enabled":true,"fullDomain":"svc.example.com"}]},"success":true,"error":false,"message":"","status":200}''\<close>

definition refused_listing_body :: string where
  \<open>refused_listing_body = ''{"data":{"resources":[]},"success":false,"error":true,"message":"org not found","status":404}''\<close>

text \<open>
  An upstream that accepts every URL and answers every request with the same status and
  body, and a client for it.
\<close>

definition any_url :: "string \<Rightarrow> go_error option" where
  "any_url u = None"

definition answer :: "int \<Rightarrow> string \<Rightarrow> string \<Rightarrow> Outgoing \<Rightarrow> go_error + Response" where
  "answer code line body req = Inr \<lparr>StatusCode = code, Status_text = line, ReadAll_Body = Inr body\<rparr>"

definition answering :: "int \<Rightarrow> string \<Rightarrow> string \<Rightarrow> upstream" where
  "answering code line body = \<lparr>url_Parse = any_url, Do = answer code line body\<rparr>"

definition client :: Pangolin where
  "client = \<lparr>token = ''secret'', host = ''https://pangolin.example.com'', org = ''home''\<rparr>"

text \<open>A rule as the handler builds it.\<close>

definition accept_rule :: PangolinRule where
  "accept_rule =
     \<lparr>RuleID = None, ResourceID_rule = None, Enabled_rule = Some True, Priority = Some 10,
      Action = Some ''ACCEPT'', Match = Some ''IP'', Value = Some ''203.0.113.7''\<rparr>"

text \<open>A request \<open>PUT /register/7\<close> without an \<open>X-Real-IP\<close> header.\<close>

definition id_is_7 :: "string \<Rightarrow> string" where
  "id_is_7 k = (if k = ''id'' then ''7'' else [])"

definition put_register_7 :: Request where
  "put_register_7 = \<lparr>Method = ''PUT'', URL_Path = ''/register/7'', URL_RawQuery = [],
     Header = no_values, RemoteAddr = ''10.0.0.1:4000'', PathValue = id_is_7,
     Body = ''{}''\<rparr>"

text \<open>
  The same request with the header \<open>X-Real-IP: 203.0.113.7\<close>, and with a header value
  that holds the byte 0xFF, which is not UTF-8.
\<close>

definition real_ip_203 :: "string \<Rightarrow> string list" where
  "real_ip_203 k = (if k = ''X-Real-Ip'' then [''203.0.113.7''] else [])"

definition put_register_7_from_203 :: Request where
  "put_register_7_from_203 = put_register_7\<lparr>Header := real_ip_203\<rparr>"

definition real_ip_odd :: "string \<Rightarrow> string list" where
  "real_ip_odd k = (if k = ''X-Real-Ip'' then [[CHR ''a'', CHR 0xFF, CHR ''b'']] else [])"

definition put_register_7_from_odd :: Request where
  "put_register_7_from_odd = put_register_7\<lparr>Header := real_ip_odd\<rparr>"

text \<open>A complete environment, and three courses of events for \<open>run\<close>.\<close>

definition full_env :: "string \<Rightarrow> string option" where
  "full_env k =
     (if k = ''PORT'' then Some ''8080''
      else if k = ''PANGOLIN_TOKEN'' then Some ''secret''
      else if k = ''PANGOLIN_HOST'' then Some ''https://pangolin.example.com''
      else if k = ''PANGOLIN_ORG'' then Some ''home''
      else None)"

definition bind_error :: go_error where
  "bind_error = LibError ''listen tcp :8080: bind: address already in use''"

definition failing_listener :: world where
  "failing_listener =
     \<lparr>os_LookupEnv = full_env, ListenAndServe = Some bind_error, ctx_Done = False,
      select_errChan = False, Shutdown = None\<rparr>"

definition clean_shutdown :: world where
  "clean_shutdown =
     \<lparr>os_LookupEnv = full_env, ListenAndServe = Some ErrServerClosed, ctx_Done = True,
      select_errChan = True, Shutdown = None\<rparr>"

definition failing_while_signalled :: world where
  "failing_while_signalled =
     \<lparr>os_LookupEnv = full_env, ListenAndServe = Some bind_error, ctx_Done = True,
      select_errChan = False, Shutdown = None\<rparr>"

section \<open>Properties of the response recorder and the middleware chain\<close>

subsection \<open>Calls on a recorder\<close>

lemma fold_perform_recorder:
  "\<exists>s' n'. fold perform cs (responseRecorder w s n) =
     responseRecorder (fold perform cs w) s' n'"
proof (induction cs arbitrary: w s n)
  case Nil
  then show ?case by simp
next
  case (Cons c cs)
  show ?case by (cases c) (simp_all add: Cons.IH)
qed

lemma embedded_fold_perform:
  "embedded (fold perform cs (responseRecorder w s n)) = fold perform cs w"
  using fold_perform_recorder [of cs w s n] by auto

lemma status_fold_perform_indep:
  "status (fold perform cs (responseRecorder w s n)) =
   status (fold perform cs (responseRecorder w' s n'))"
proof (induction cs arbitrary: w w' s n n')
  case Nil
  then show ?case by simp
next
  case (Cons c cs)
  show ?case by (cases c) (simp_all add: Cons.IH [of _ _ _ _ _])
qed

lemma numBytes_fold_perform_indep:
  "numBytes (fold perform cs (responseRecorder w s n)) =
   numBytes (fold perform cs (responseRecorder w' s' n))"
proof (induction cs arbitrary: w w' s s' n)
  case Nil
  then show ?case by simp
next
  case (Cons c cs)
  show ?case by (cases c) (simp_all add: Cons.IH [of _ _ _ _ _])
qed

lemma sink_calls_perform: "sink_calls (perform c w) = sink_calls w @ [c]"
  by (induction w) (cases c; simp)+

lemma sink_calls_fold_perform: "sink_calls (fold perform cs w) = sink_calls w @ cs"
  by (induction cs arbitrary: w) (simp_all add: sink_calls_perform)

lemma sink_calls_http_Error:
  "sink_calls (http_Error w e c) = sink_calls w @
     [HeaderDel ''Content-Length'', HeaderSet ''Content-Type'' ''text/plain; charset=utf-8'',
      HeaderSet ''X-Content-Type-Options'' ''nosniff'', WriteHeaderCall c,
      WriteCall (e @ [CHR 0x0A])]"
proof -
  have "http_Error w e c =
          fold perform [HeaderDel ''Content-Length'',
            HeaderSet ''Content-Type'' ''text/plain; charset=utf-8'',
            HeaderSet ''X-Content-Type-Options'' ''nosniff'', WriteHeaderCall c,
            WriteCall (e @ [CHR 0x0A])] w"
    by (simp add: http_Error_def)
  then show ?thesis by (simp only: sink_calls_fold_perform)
qed

lemma fold_WriteHeader_recorder:
  "fold WriteHeader codes (responseRecorder w s n) =
     responseRecorder (fold WriteHeader codes w) (last (s # codes)) n"
  by (induction codes arbitrary: w s) simp_all

lemma sink_calls_WriteHeader:
  "sink_calls (WriteHeader c w) = sink_calls w @ [WriteHeaderCall c]"
  by (induction w) simp_all

lemma sink_calls_fold_WriteHeader:
  "sink_calls (fold WriteHeader codes w) = sink_calls w @ map WriteHeaderCall codes"
  by (induction codes arbitrary: w) (simp_all add: sink_calls_WriteHeader)

text \<open>
  Claim C2, as the code has it.  After one or more \<open>WriteHeader\<close> calls on a recorder,
  every call has been forwarded to the underlying writer, in order, and the recorded
  status is the code of the last call: \<open>re.status = statusCode\<close> is an unguarded
  assignment.
\<close>

theorem WriteHeader_keeps_last:
  assumes "codes \<noteq> []"
  shows "status (fold WriteHeader codes (responseRecorder w s n)) = last codes \<and>
         sink_calls (fold WriteHeader codes (responseRecorder w s n)) =
           sink_calls w @ map WriteHeaderCall codes"
  using assms by (simp add: fold_WriteHeader_recorder sink_calls_fold_WriteHeader)

theorem WriteHeader_keeps_last_witness:
  "status (fold WriteHeader [200, 404, 500] (responseRecorder (Sink []) 0 0)) = 500 \<and>
   sink_calls (fold WriteHeader [200, 404, 500] (responseRecorder (Sink []) 0 0)) =
     [WriteHeaderCall 200, WriteHeaderCall 404, WriteHeaderCall 500]"
  using WriteHeader_keeps_last [of "[200, 404, 500]" "Sink []" 0 0] by simp

text \<open>
  Claim C2 as stated fails: after \<open>WriteHeader(200)\<close> and \<open>WriteHeader(500)\<close> the recorded
  status is not the first value.
\<close>

theorem WriteHeader_first_value_counterexample:
  "status (WriteHeader 500 (WriteHeader 200 (responseRecorder (Sink []) 0 0))) \<noteq> 200"
  by simp

subsection \<open>The chain around a route handler\<close>

lemma accesslog_scripted:
  "accesslog (scripted script) latency w r lg =
     (fold perform (fst (script r)) w,
      (case snd (script r) of
         Returns \<Rightarrow>
           lg @ [\<lparr>level = LevelInfo, msg = ''accessed'',
                   attrs = [(''latency'', String_attr latency),
                            (''method'', String_attr (Method r)),
                            (''path'', String_attr (URL_Path r)),
                            (''query'', String_attr (URL_RawQuery r)),
                            (''ip'', String_attr (Header_Get (Header r) ''X-Real-IP'')),
                            (''status'',
                             Int_attr (status (fold perform (fst (script r))
                               (responseRecorder w 0 0)))),
                            (''bytes'',
                             Int_attr (numBytes (fold perform (fst (script r))
                               (responseRecorder w 0 0))))]\<rparr>]
       | Panics v \<Rightarrow> lg),
      snd (script r))"
  by (cases "snd (script r)")
     (simp_all add: accesslog_def scripted_def embedded_fold_perform Let_def)

lemma route_scripted:
  "route (scripted script) latency stack w r lg =
     (let wr = fold perform (fst (script r)) (responseRecorder w 0 0) in
      case snd (script r) of
        Returns \<Rightarrow>
          (embedded wr,
           lg @ [\<lparr>level = LevelInfo, msg = ''accessed'',
                   attrs = [(''latency'', String_attr latency),
                            (''method'', String_attr (Method r)),
                            (''path'', String_attr (URL_Path r)),
                            (''query'', String_attr (URL_RawQuery r)),
                            (''ip'', String_attr (Header_Get (Header r) ''X-Real-IP'')),
                            (''status'', Int_attr (status wr)),
                            (''bytes'', Int_attr (numBytes wr))]\<rparr>],
           Returns)
      | Panics v \<Rightarrow>
          (if is_abort v then (embedded wr, lg, Returns)
           else
             (if status wr > 0 then embedded wr
              else http_Error (embedded wr) (fmt_Sprint v) 500,
              lg @ [\<lparr>level = LevelError, msg = ''panic!'',
                      attrs = [(''error'', Any_attr v),
                               (''stack'', String_attr (take 1024 stack)),
                               (''method'', String_attr (Method r)),
                               (''path'', String_attr (URL_Path r)),
                               (''query'', String_attr (URL_RawQuery r)),
                               (''ip'', String_attr (RemoteAddr r))]\<rparr>],
              Returns)))"
proof -
  have st: "status (fold perform (fst (script r)) (responseRecorder (responseRecorder w 0 0) 0 0)) =
            status (fold perform (fst (script r)) (responseRecorder w 0 0))"
    by (rule status_fold_perform_indep)
  have nb: "numBytes (fold perform (fst (script r))
              (responseRecorder (responseRecorder w 0 0) 0 0)) =
            numBytes (fold perform (fst (script r)) (responseRecorder w 0 0))"
    by (rule numBytes_fold_perform_indep)
  show ?thesis
    by (cases "snd (script r)")
       (simp_all add: route_def recovery_def accesslog_scripted Let_def st nb
          embedded_fold_perform)
qed

text \<open>
  Claim C1, as the code has it.  A request whose route handler returns (whatever response
  it wrote) adds exactly one access-log entry; a request whose route handler panics adds
  none, because the panic leaves \<open>accesslog\<close> before its log call and \<open>recovery\<close> is
  outside it.
\<close>

theorem accessed_once_unless_panic:
  "length (accessed_entries (fst (snd (route (scripted script) latency stack w r lg)))) =
     length (accessed_entries lg) +
       (case snd (script r) of Returns \<Rightarrow> 1 | Panics v \<Rightarrow> 0)"
  by (cases "snd (script r)")
     (simp_all add: route_scripted Let_def accessed_entries_def)

theorem accessed_once_unless_panic_witness:
  "length (accessed_entries (fst (snd (route (scripted answers_ok) ''1ms''
      ''goroutine 1'' (Sink []) get_root [])))) = 1 \<and>
   length (accessed_entries (fst (snd (route (scripted panics_after_status) ''1ms''
      ''goroutine 1'' (Sink []) get_root [])))) = 0"
  using accessed_once_unless_panic [of answers_ok "''1ms''" "''goroutine 1''" "Sink []" get_root "[]"]
    accessed_once_unless_panic [of panics_after_status "''1ms''" "''goroutine 1''" "Sink []"
      get_root "[]"]
  by (simp add: answers_ok_def panics_after_status_def accessed_entries_def)

text \<open>
  Claim C1 as stated fails: a request whose handler panics leaves no access-log entry.
\<close>

theorem accessed_on_panic_counterexample:
  "accessed_entries (fst (snd (route (scripted panics_at_once) ''1ms'' ''goroutine 1''
      (Sink []) get_root []))) = []"
  by (simp add: route_scripted panics_at_once_def Let_def accessed_entries_def)

text \<open>
  Claim C5.  When the route handler panics with a value that is not the abort sentinel,
  the calls that reach the server's writer are those of the handler followed, if the
  recorder of \<open>recovery\<close> holds no positive status, by the calls of
  \<open>http.Error(w, fmt.Sprint(err), 500)\<close>, and by nothing if it holds a positive status.
\<close>

theorem recovery_status_write:
  assumes "script r = (calls, Panics v)" and "\<not> is_abort v"
  shows "sink_calls (fst (route (scripted script) latency stack w r lg)) =
           sink_calls w @ calls @
           (if status (fold perform calls (responseRecorder w 0 0)) > 0 then []
            else [HeaderDel ''Content-Length'',
                  HeaderSet ''Content-Type'' ''text/plain; charset=utf-8'',
                  HeaderSet ''X-Content-Type-Options'' ''nosniff'',
                  WriteHeaderCall 500, WriteCall (fmt_Sprint v @ [CHR 0x0A])])"
  using assms
  by (simp add: route_scripted Let_def embedded_fold_perform sink_calls_fold_perform
        sink_calls_http_Error)

theorem recovery_status_write_witness:
  "sink_calls (fst (route (scripted panics_at_once) ''1ms'' ''goroutine 1''
      (Sink []) get_root [])) =
     [HeaderDel ''Content-Length'',
      HeaderSet ''Content-Type'' ''text/plain; charset=utf-8'',
      HeaderSet ''X-Content-Type-Options'' ''nosniff'',
      WriteHeaderCall 500, WriteCall (''boom'' @ [CHR 0x0A])] \<and>
   sink_calls (fst (route (scripted panics_after_status) ''1ms'' ''goroutine 1''
      (Sink []) get_root [])) = [WriteHeaderCall 200, WriteCall ''partial'']"
  using recovery_status_write [of panics_at_once get_root "[]" "PanicString ''boom''"
      "''1ms''" "''goroutine 1''" "Sink []" "[]"]
    recovery_status_write [of panics_after_status get_root
      "[WriteHeaderCall 200, WriteCall ''partial'']" "PanicString ''boom''"
      "''1ms''" "''goroutine 1''" "Sink []" "[]"]
  by (simp add: panics_at_once_def panics_after_status_def)

section \<open>Properties of the JSON reader\<close>

text \<open>
  Whatever the reader returns, it has consumed input; in particular the two tests on the
  result of \<open>parse_value\<close> in \<open>parse_elements\<close> and \<open>parse_members\<close> never fail.
\<close>

lemma scan_digits_shorter: "scan_digits s = Some (x, r) \<Longrightarrow> length r < length s"
  by (cases s) (auto simp: scan_digits_def split: if_splits intro: le_imp_less_Suc length_dropWhile_le)

lemma scan_fraction_le: "scan_fraction s = Some (x, r) \<Longrightarrow> length r \<le> length s"
  by (auto simp: scan_fraction_def split: list.splits if_splits dest!: scan_digits_shorter)

lemma scan_exponent_le: "scan_exponent s = Some (x, r) \<Longrightarrow> length r \<le> length s"
  by (auto simp: scan_exponent_def split: list.splits if_splits dest!: scan_digits_shorter)

lemma scan_number_shorter: "scan_number s = Some (x, r) \<Longrightarrow> length r < length s"
  by (cases s)
     (auto simp: scan_number_def Let_def split: list.splits if_splits option.splits
           dest!: scan_digits_shorter scan_fraction_le scan_exponent_le)

lemma parse_shorter:
  shows "parse_value d s = Some (v, r) \<Longrightarrow> length r < length s"
    and "parse_elements d' acc s' = Some (v', r') \<Longrightarrow> length r' < length s'"
    and "parse_members d'' acc' s'' = Some (v'', r'') \<Longrightarrow> length r'' < length s''"
proof (induction d s and d' acc s' and d'' acc' s'' arbitrary: v r and v' r' and v'' r''
    rule: parse_value_parse_elements_parse_members.induct)
  case (1 d s)
  note prem = "1.prems" [unfolded parse_value.simps [of d s]]
  show ?case
  proof (cases "skip_space s")
    case Nil
    with prem show ?thesis by simp
  next
    case outer: (Cons c t)
    note t = skip_space_Cons [OF outer]
    show ?thesis
    proof (cases "c = CHR ''{'' \<or> c = CHR ''[''")
      case False
      with prem outer t show ?thesis
        by (auto split: if_splits dest!: scan_string_shorter scan_number_shorter)
    next
      case True
      with prem outer have depth: "\<not> maxNestingDepth \<le> d"
        by (auto split: if_splits)
      show ?thesis
      proof (cases "skip_space t")
        case Nil
        with prem outer True depth show ?thesis by auto
      next
        case inner: (Cons c' t')
        note t' = skip_space_Cons [OF inner]
        show ?thesis
        proof (cases "c = CHR ''{''")
          case brace: True
          show ?thesis
          proof (cases "c' = CHR ''}''")
            case True
            with prem outer inner brace depth t t' show ?thesis by auto
          next
            case False
            with prem outer inner brace depth
            have "parse_members (Suc d) [] (c' # t') = Some (v, r)" by simp
            from "1.IH"(1) [OF outer brace depth inner False this] t t'
            show ?thesis by simp
          qed
        next
          case no_brace: False
          with True have bracket: "c = CHR ''[''" by simp
          show ?thesis
          proof (cases "c' = CHR '']''")
            case True
            with prem outer inner bracket depth t t' show ?thesis by auto
          next
            case False
            with prem outer inner bracket depth
            have "parse_elements (Suc d) [] (c' # t') = Some (v, r)" by simp
            from "1.IH"(2) [OF outer no_brace bracket depth inner False this] t t'
            show ?thesis by simp
          qed
        qed
      qed
    qed
  qed
next
  case (2 d acc s)
  note prem = "2.prems" [unfolded parse_elements.simps [of d acc s]]
  from prem obtain v0 r0 where parsed: "parse_value d s = Some (v0, r0)"
    by (auto split: option.splits)
  with prem have shorter: "length r0 < length s"
    by (auto split: if_splits)
  from prem parsed shorter obtain c t where rest: "skip_space r0 = c # t"
    by (auto split: list.splits)
  note t = skip_space_Cons [OF rest]
  show ?case
  proof (cases "c = CHR '',''")
    case True
    with prem parsed shorter rest
    have "parse_elements d (acc @ [v0]) t = Some (v', r')" by simp
    from "2.IH"(2) [OF parsed refl shorter rest True this] t shorter
    show ?thesis by simp
  next
    case False
    with prem parsed shorter rest t show ?thesis
      by (auto split: if_splits)
  qed
next
  case (3 d acc s)
  note prem = "3.prems" [unfolded parse_members.simps [of d acc s]]
  from prem obtain c t where first: "skip_space s = c # t"
    by (auto split: list.splits)
  with prem have quote: "\<not> c \<noteq> CHR 0x22"
    by (auto split: if_splits)
  from prem first quote obtain k r where key: "scan_string t = Some (k, r)"
    by (auto split: option.splits)
  from prem first quote key obtain c1 r1 where colon: "skip_space r = c1 # r1"
    by (auto split: list.splits)
  with prem first quote key have is_colon: "\<not> c1 \<noteq> CHR '':''"
    by (auto split: if_splits)
  from prem first quote key colon is_colon obtain v0 r2
    where parsed: "parse_value d r1 = Some (v0, r2)"
    by (auto split: option.splits)
  with prem first quote key colon is_colon have shorter: "length r2 < length r1"
    by (auto split: if_splits)
  from prem first quote key colon is_colon parsed shorter obtain c2 r3
    where rest: "skip_space r2 = c2 # r3"
    by (auto split: list.splits)
  have len: "length r3 < length s"
    using skip_space_Cons [OF first] scan_string_shorter [OF key] skip_space_Cons [OF colon]
      shorter skip_space_Cons [OF rest]
    by simp
  show ?case
  proof (cases "c2 = CHR '',''")
    case True
    with prem first quote key colon is_colon parsed shorter rest
    have "parse_members d (acc @ [(k, v0)]) r3 = Some (v'', r'')" by simp
    from "3.IH"(2) [OF first quote key refl colon is_colon parsed refl shorter rest True this] len
    show ?thesis by simp
  next
    case False
    with prem first quote key colon is_colon parsed shorter rest len show ?thesis
      by (auto split: if_splits)
  qed
qed

section \<open>Properties of package \<open>pangolin\<close>\<close>

subsection \<open>Values computed once\<close>

lemma canonical_Authorization: "CanonicalMIMEHeaderKey ''Authorization'' = ''Authorization''"
  by code_simp

lemma canonical_Content_Type: "CanonicalMIMEHeaderKey ''Content-Type'' = ''Content-Type''"
  by code_simp

lemma Itoa_7: "Itoa 7 = ''7''"
  by code_simp

lemma Itoa_10: "Itoa 10 = ''10''"
  by code_simp

lemma Atoi_7: "Atoi ''7'' = Inr 7"
  by code_simp

lemma Atoi_8080: "Atoi ''8080'' = Inr 8080"
  by code_simp

lemma Unmarshal_duplicate_rule:
  "json_Unmarshal duplicate_rule_body (decode_PangolinResponse decode_PangolinRule)
     (zero_PangolinResponse zero_PangolinRule) =
   Inr \<lparr>Data = zero_PangolinRule, Success = False, Error = True, Message = ''duplicate rule'',
        Status = 0\<rparr>"
  by code_simp

lemma Unmarshal_empty_object:
  "json_Unmarshal ''{}'' (decode_PangolinResponse decode_PangolinRule)
     (zero_PangolinResponse zero_PangolinRule) =
   Inr \<lparr>Data = zero_PangolinRule, Success = False, Error = False, Message = [], Status = 0\<rparr>"
  by code_simp

lemma Unmarshal_listing:
  "json_Unmarshal listing_body (decode_PangolinResponse decode_PangolinResources)
     (zero_PangolinResponse zero_PangolinResources) =
   Inr \<lparr>Data = \<lparr>Resources = [\<lparr>ResourceID = Some 1, Name = Some ''svc'', Enabled = Some True,
                                 FullDomain = Some ''svc.example.com''\<rparr>]\<rparr>,
        Success = True, Error = False, Message = [], Status = 200\<rparr>"
  by code_simp

lemma Unmarshal_refused_listing:
  "json_Unmarshal refused_listing_body (decode_PangolinResponse decode_PangolinResources)
     (zero_PangolinResponse zero_PangolinResources) =
   Inr \<lparr>Data = \<lparr>Resources = []\<rparr>, Success = False, Error = True,
        Message = ''org not found'', Status = 404\<rparr>"
  by code_simp

text \<open>A string of ASCII bytes is written as it is; an invalid byte is replaced.\<close>

lemma coerce_utf8_ascii: "list_all (\<lambda>c. c < CHR 0x80) s \<Longrightarrow> coerce_utf8 s = s"
  by (induction s) (simp_all add: coerce_utf8.simps rune_size_def)

lemma coerce_utf8_ACCEPT: "coerce_utf8 ''ACCEPT'' = ''ACCEPT''"
  by code_simp

lemma coerce_utf8_IP: "coerce_utf8 ''IP'' = ''IP''"
  by code_simp

lemma coerce_utf8_203: "coerce_utf8 ''203.0.113.7'' = ''203.0.113.7''"
  by code_simp

lemma coerce_utf8_odd:
  "coerce_utf8 [CHR ''a'', CHR 0xFF, CHR ''b''] = [CHR ''a'', CHR 0xEF, CHR 0xBF, CHR 0xBD, CHR ''b'']"
  by code_simp

subsection \<open>The two calls, step by step\<close>

lemma request_fresh:
  "request p up \<lparr>out_Method = m, out_URL = u, out_Header = [], out_Body = b\<rparr> =
     (Do up \<lparr>out_Method = m, out_URL = u,
              out_Header = [(''Authorization'', [''Bearer '' @ token p]),
                            (''Content-Type'', [''application/json''])],
              out_Body = b\<rparr>,
      [\<lparr>out_Method = m, out_URL = u,
        out_Header = [(''Authorization'', [''Bearer '' @ token p]),
                      (''Content-Type'', [''application/json''])],
        out_Body = b\<rparr>])"
  by (simp add: request_def Let_def canonical_Authorization canonical_Content_Type)

lemma CreateRule_unfold:
  "CreateRule p up rule resourceID =
     (case url_Parse up (host p @ ''/v1/resource/'' @ Itoa resourceID @ ''/rule'') of
        Some err \<Rightarrow> (Inl err, [])
      | None \<Rightarrow>
          (let req = \<lparr>out_Method = ''PUT'',
                      out_URL = host p @ ''/v1/resource/'' @ Itoa resourceID @ ''/rule'',
                      out_Header = [(''Authorization'', [''Bearer '' @ token p]),
                                    (''Content-Type'', [''application/json''])],
                      out_Body = Some (json_Marshal rule)\<rparr>
           in (case Do up req of
                 Inl err \<Rightarrow> Inl err
               | Inr res \<Rightarrow>
                   (case ReadAll_Body res of
                      Inl err \<Rightarrow> Inl err
                    | Inr body \<Rightarrow>
                        (case json_Unmarshal body (decode_PangolinResponse decode_PangolinRule)
                                (zero_PangolinResponse zero_PangolinRule) of
                           Inl err \<Rightarrow> Inl err
                         | Inr resp \<Rightarrow>
                             if Error resp then Inl (errors_New (''error: '' @ Message resp))
                             else Inr (Data resp))),
               [req])))"
  by (simp add: CreateRule_def http_NewRequest_def request_fresh baseURL_def Let_def
      split: option.splits sum.splits)

lemma CreateRule_sent:
  "snd (CreateRule p up rule resourceID) =
     (case url_Parse up (host p @ ''/v1/resource/'' @ Itoa resourceID @ ''/rule'') of
        Some err \<Rightarrow> []
      | None \<Rightarrow>
          [\<lparr>out_Method = ''PUT'',
            out_URL = host p @ ''/v1/resource/'' @ Itoa resourceID @ ''/rule'',
            out_Header = [(''Authorization'', [''Bearer '' @ token p]),
                          (''Content-Type'', [''application/json''])],
            out_Body = Some (json_Marshal rule)\<rparr>])"
  by (simp add: CreateRule_unfold Let_def split: option.splits)

lemma CreateRule_result:
  assumes "snd (CreateRule p up rule resourceID) = [req]"
  shows "fst (CreateRule p up rule resourceID) =
     (case Do up req of
        Inl err \<Rightarrow> Inl err
      | Inr res \<Rightarrow>
          (case ReadAll_Body res of
             Inl err \<Rightarrow> Inl err
           | Inr body \<Rightarrow>
               (case json_Unmarshal body (decode_PangolinResponse decode_PangolinRule)
                       (zero_PangolinResponse zero_PangolinRule) of
                  Inl err \<Rightarrow> Inl err
                | Inr resp \<Rightarrow>
                    if Error resp then Inl (errors_New (''error: '' @ Message resp))
                    else Inr (Data resp))))"
proof (cases "url_Parse up (host p @ ''/v1/resource/'' @ Itoa resourceID @ ''/rule'')")
  case None
  with assms show ?thesis
    by (simp add: CreateRule_unfold Let_def)
next
  case (Some err)
  with assms show ?thesis
    by (simp add: CreateRule_unfold)
qed

lemma GetResources_unfold:
  "GetResources p up =
     (case url_Parse up (host p @ ''/v1/org/'' @ org p @ ''/resources'') of
        Some err \<Rightarrow> (Inl err, [])
      | None \<Rightarrow>
          (let req = \<lparr>out_Method = ''GET'',
                      out_URL = host p @ ''/v1/org/'' @ org p @ ''/resources'',
                      out_Header = [(''Authorization'', [''Bearer '' @ token p]),
                                    (''Content-Type'', [''application/json''])],
                      out_Body = None\<rparr>
           in (case Do up req of
                 Inl err \<Rightarrow> Inl err
               | Inr res \<Rightarrow>
                   if StatusCode res \<noteq> 200
                   then Inl (errors_New (''error status code: '' @ Status_text res))
                   else
                     (case ReadAll_Body res of
                        Inl err \<Rightarrow> Inl err
                      | Inr body \<Rightarrow>
                          (case json_Unmarshal body
                                  (decode_PangolinResponse decode_PangolinResources)
                                  (zero_PangolinResponse zero_PangolinResources) of
                             Inl err \<Rightarrow> Inl err
                           | Inr resp \<Rightarrow> Inr (Data resp))),
               [req])))"
  by (simp add: GetResources_def http_NewRequest_def request_fresh baseURL_def Let_def
      split: option.splits sum.splits)

lemma GetResources_result:
  assumes "snd (GetResources p up) = [req]"
  shows "fst (GetResources p up) =
     (case Do up req of
        Inl err \<Rightarrow> Inl err
      | Inr res \<Rightarrow>
          if StatusCode res \<noteq> 200
          then Inl (errors_New (''error status code: '' @ Status_text res))
          else
            (case ReadAll_Body res of
               Inl err \<Rightarrow> Inl err
             | Inr body \<Rightarrow>
                 (case json_Unmarshal body (decode_PangolinResponse decode_PangolinResources)
                         (zero_PangolinResponse zero_PangolinResources) of
                    Inl err \<Rightarrow> Inl err
                  | Inr resp \<Rightarrow> Inr (Data resp))))"
proof (cases "url_Parse up (host p @ ''/v1/org/'' @ org p @ ''/resources'')")
  case None
  with assms show ?thesis
    by (simp add: GetResources_unfold Let_def)
next
  case (Some err)
  with assms show ?thesis
    by (simp add: GetResources_unfold)
qed

lemma GetResources_answering:
  "GetResources client (answering code line body) =
     (if code \<noteq> 200 then Inl (errors_New (''error status code: '' @ line))
      else case json_Unmarshal body (decode_PangolinResponse decode_PangolinResources)
                  (zero_PangolinResponse zero_PangolinResources) of
             Inl err \<Rightarrow> Inl err
           | Inr resp \<Rightarrow> Inr (Data resp),
      [\<lparr>out_Method = ''GET'',
        out_URL = ''https://pangolin.example.com/v1/org/home/resources'',
        out_Header = [(''Authorization'', [''Bearer secret'']),
                      (''Content-Type'', [''application/json''])],
        out_Body = None\<rparr>])"
  by (simp add: GetResources_unfold answering_def any_url_def answer_def client_def Let_def)

lemma CreateRule_answering:
  "CreateRule client (answering code line body) rule 7 =
     (case json_Unmarshal body (decode_PangolinResponse decode_PangolinRule)
             (zero_PangolinResponse zero_PangolinRule) of
        Inl err \<Rightarrow> Inl err
      | Inr resp \<Rightarrow>
          if Error resp then Inl (errors_New (''error: '' @ Message resp)) else Inr (Data resp),
      [\<lparr>out_Method = ''PUT'',
        out_URL = ''https://pangolin.example.com/v1/resource/7/rule'',
        out_Header = [(''Authorization'', [''Bearer secret'']),
                      (''Content-Type'', [''application/json''])],
        out_Body = Some (json_Marshal rule)\<rparr>])"
  by (simp add: CreateRule_unfold answering_def any_url_def answer_def client_def Let_def Itoa_7)

subsection \<open>\<open>CreateRule\<close>\<close>

text \<open>
  Claim C3.  When \<open>CreateRule\<close> has sent its request, the round trip has returned a response
  and the body has been read, the body is unmarshalled whatever the status code is: an
  envelope with \<open>error\<close> set gives the error \<open>errors.New("error: " + resp.Message)\<close>, any
  other envelope gives its \<open>data\<close> (and a body that does not unmarshal gives the error of
  \<open>json.Unmarshal\<close>).  The body \<open>{"error":true,"message":"duplicate rule"}\<close> gives the
  error with the text \<open>error: duplicate rule\<close>.
\<close>

theorem CreateRule_envelope:
  assumes "snd (CreateRule p up rule resourceID) = [req]"
    and "Do up req = Inr res"
    and "ReadAll_Body res = Inr body"
  shows "fst (CreateRule p up rule resourceID) =
           (case json_Unmarshal body (decode_PangolinResponse decode_PangolinRule)
                   (zero_PangolinResponse zero_PangolinRule) of
              Inl err \<Rightarrow> Inl err
            | Inr resp \<Rightarrow>
                if Error resp then Inl (errors_New (''error: '' @ Message resp))
                else Inr (Data resp)) \<and>
         (body = duplicate_rule_body \<longrightarrow>
            fst (CreateRule p up rule resourceID) = Inl (errors_New ''error: duplicate rule''))"
  using assms by (simp add: CreateRule_result Unmarshal_duplicate_rule)

theorem CreateRule_envelope_witness:
  "fst (CreateRule client (answering 200 ''200 OK'' duplicate_rule_body) accept_rule 7) =
     Inl (errors_New ''error: duplicate rule'')"
proof -
  have sent: "snd (CreateRule client (answering 200 ''200 OK'' duplicate_rule_body)
                accept_rule 7) =
      [\<lparr>out_Method = ''PUT'',
        out_URL = ''https://pangolin.example.com/v1/resource/7/rule'',
        out_Header = [(''Authorization'', [''Bearer secret'']),
                      (''Content-Type'', [''application/json''])],
        out_Body = Some (json_Marshal accept_rule)\<rparr>]"
    by (simp add: CreateRule_answering)
  have answered: "Do (answering 200 ''200 OK'' duplicate_rule_body)
        \<lparr>out_Method = ''PUT'',
         out_URL = ''https://pangolin.example.com/v1/resource/7/rule'',
         out_Header = [(''Authorization'', [''Bearer secret'']),
                       (''Content-Type'', [''application/json''])],
         out_Body = Some (json_Marshal accept_rule)\<rparr> =
      Inr \<lparr>StatusCode = 200, Status_text = ''200 OK'',
           ReadAll_Body = Inr duplicate_rule_body\<rparr>"
    by (simp add: answering_def answer_def)
  show ?thesis
    using CreateRule_envelope [OF sent answered, of duplicate_rule_body]
    by (simp add: Unmarshal_duplicate_rule)
qed

text \<open>
  Claim C9.  \<open>CreateRule\<close> does not read the status of the response: changing
  \<open>StatusCode\<close> and \<open>Status\<close> of the response changes nothing in the result; whatever
  the status is, a body that unmarshals to an envelope without \<open>error\<close> gives the \<open>data\<close>
  of the envelope and no error, and the body \<open>{}\<close> gives the rule with every field unset.
\<close>

theorem CreateRule_status_unread:
  assumes "snd (CreateRule p up rule resourceID) = [req]"
    and "Do up req = Inr res"
  shows "fst (CreateRule p (up\<lparr>Do := \<lambda>req. Inr (res\<lparr>StatusCode := code, Status_text := line\<rparr>)\<rparr>)
                rule resourceID) =
         fst (CreateRule p up rule resourceID) \<and>
         (ReadAll_Body res = Inr body \<and>
          json_Unmarshal body (decode_PangolinResponse decode_PangolinRule)
            (zero_PangolinResponse zero_PangolinRule) = Inr resp \<and> \<not> Error resp \<longrightarrow>
            fst (CreateRule p up rule resourceID) = Inr (Data resp)) \<and>
         (ReadAll_Body res = Inr ''{}'' \<longrightarrow>
            fst (CreateRule p up rule resourceID) = Inr zero_PangolinRule)"
proof -
  let ?up' = "up\<lparr>Do := \<lambda>req. Inr (res\<lparr>StatusCode := code, Status_text := line\<rparr>)\<rparr>"
  have "snd (CreateRule p ?up' rule resourceID) = snd (CreateRule p up rule resourceID)"
    by (simp add: CreateRule_sent)
  with assms(1) have sent': "snd (CreateRule p ?up' rule resourceID) = [req]"
    by simp
  have same: "fst (CreateRule p ?up' rule resourceID) = fst (CreateRule p up rule resourceID)"
    by (simp add: CreateRule_result [OF sent'] CreateRule_result [OF assms(1)] assms(2))
  have empty: "fst (CreateRule p up rule resourceID) = Inr zero_PangolinRule"
    if "ReadAll_Body res = Inr ''{}''"
    using that by (simp add: CreateRule_result [OF assms(1)] assms(2) Unmarshal_empty_object)
  have parsed: "fst (CreateRule p up rule resourceID) = Inr (Data resp)"
    if "ReadAll_Body res = Inr body"
      and "json_Unmarshal body (decode_PangolinResponse decode_PangolinRule)
             (zero_PangolinResponse zero_PangolinRule) = Inr resp"
      and "\<not> Error resp"
    using that by (simp add: CreateRule_result [OF assms(1)] assms(2))
  from same parsed empty show ?thesis by simp
qed

theorem CreateRule_status_unread_witness:
  "fst (CreateRule client (answering 503 ''503 Service Unavailable'' ''{}'') accept_rule 7) =
     Inr zero_PangolinRule"
proof -
  have sent: "snd (CreateRule client (answering 503 ''503 Service Unavailable'' ''{}'')
                accept_rule 7) =
      [\<lparr>out_Method = ''PUT'',
        out_URL = ''https://pangolin.example.com/v1/resource/7/rule'',
        out_Header = [(''Authorization'', [''Bearer secret'']),
                      (''Content-Type'', [''application/json''])],
        out_Body = Some (json_Marshal accept_rule)\<rparr>]"
    by (simp add: CreateRule_answering)
  have answered: "Do (answering 503 ''503 Service Unavailable'' ''{}'')
        \<lparr>out_Method = ''PUT'',
         out_URL = ''https://pangolin.example.com/v1/resource/7/rule'',
         out_Header = [(''Authorization'', [''Bearer secret'']),
                       (''Content-Type'', [''application/json''])],
         out_Body = Some (json_Marshal accept_rule)\<rparr> =
      Inr \<lparr>StatusCode = 503, Status_text = ''503 Service Unavailable'',
           ReadAll_Body = Inr ''{}''\<rparr>"
    by (simp add: answering_def answer_def)
  show ?thesis
    using CreateRule_status_unread [OF sent answered, where code = 200 and line = "''200 OK''"]
    by simp
qed

text \<open>
  Claim C7.  A rule whose \<open>RuleID\<close> and \<open>ResourceID\<close> are \<open>nil\<close> and whose five other fields
  are set is marshalled to an object of exactly the five members \<open>enabled\<close>, \<open>priority\<close>,
  \<open>action\<close>, \<open>match\<close> and \<open>value\<close>, the three strings written as valid UTF-8: there is no
  member \<open>ruleId\<close> or \<open>resourceId\<close>, and no \<open>null\<close>.  That object is the body of the
  request which \<open>CreateRule\<close> sends.
\<close>

theorem Marshal_omits_unset_ids:
  assumes "RuleID rule = None" and "ResourceID_rule rule = None"
    and "Enabled_rule rule = Some e" and "Priority rule = Some n"
    and "Action rule = Some a" and "Match rule = Some m" and "Value rule = Some v"
  shows "json_Marshal rule =
           JObject [(''enabled'', JBool e), (''priority'', JNumber (Itoa n)),
                    (''action'', JString (coerce_utf8 a)), (''match'', JString (coerce_utf8 m)),
                    (''value'', JString (coerce_utf8 v))] \<and>
         (url_Parse up (host p @ ''/v1/resource/'' @ Itoa resourceID @ ''/rule'') = None \<longrightarrow>
            map out_Body (snd (CreateRule p up rule resourceID)) =
              [Some (JObject [(''enabled'', JBool e), (''priority'', JNumber (Itoa n)),
                              (''action'', JString (coerce_utf8 a)),
                              (''match'', JString (coerce_utf8 m)),
                              (''value'', JString (coerce_utf8 v))])])"
proof -
  have m: "json_Marshal rule =
           JObject [(''enabled'', JBool e), (''priority'', JNumber (Itoa n)),
                    (''action'', JString (coerce_utf8 a)), (''match'', JString (coerce_utf8 m)),
                    (''value'', JString (coerce_utf8 v))]"
    using assms by (simp add: json_Marshal_def omitempty_def)
  show ?thesis
    by (simp add: m CreateRule_unfold Let_def)
qed

theorem Marshal_omits_unset_ids_witness:
  "json_Marshal accept_rule =
     JObject [(''enabled'', JBool True), (''priority'', JNumber ''10''),
              (''action'', JString ''ACCEPT''), (''match'', JString ''IP''),
              (''value'', JString ''203.0.113.7'')] \<and>
   map out_Body (snd (CreateRule client (answering 200 ''200 OK'' ''{}'') accept_rule 7)) =
     [Some (JObject [(''enabled'', JBool True), (''priority'', JNumber ''10''),
                     (''action'', JString ''ACCEPT''), (''match'', JString ''IP''),
                     (''value'', JString ''203.0.113.7'')])]"
proof -
  have fields: "RuleID accept_rule = None" "ResourceID_rule accept_rule = None"
    "Enabled_rule accept_rule = Some True" "Priority accept_rule = Some 10"
    "Action accept_rule = Some ''ACCEPT''" "Match accept_rule = Some ''IP''"
    "Value accept_rule = Some ''203.0.113.7''"
    by (simp_all add: accept_rule_def)
  have url: "url_Parse (answering 200 ''200 OK'' ''{}'')
               (host client @ ''/v1/resource/'' @ Itoa 7 @ ''/rule'') = None"
    by (simp add: answering_def any_url_def)
  show ?thesis
    using Marshal_omits_unset_ids [OF fields, of "answering 200 ''200 OK'' ''{}''" client 7] url
    by (simp add: Itoa_10 coerce_utf8_ACCEPT coerce_utf8_IP coerce_utf8_203)
qed

subsection \<open>\<open>GetResources\<close>\<close>

text \<open>
  Claim C6.  When \<open>GetResources\<close> has sent its request and the round trip has returned a
  response: a status code other than 200 gives the error
  \<open>errors.New("error status code: " + res.Status)\<close>, whatever the body is; the status code
  200 with the body of the scenario gives the one resource with \<open>resourceId\<close> 1, \<open>name\<close>
  \<open>svc\<close>, \<open>enabled\<close> true and \<open>fullDomain\<close> \<open>svc.example.com\<close>.
\<close>

theorem GetResources_status_then_listing:
  assumes "snd (GetResources p up) = [req]"
    and "Do up req = Inr res"
  shows "(StatusCode res \<noteq> 200 \<longrightarrow>
            fst (GetResources p up) =
              Inl (errors_New (''error status code: '' @ Status_text res))) \<and>
         (StatusCode res = 200 \<and> ReadAll_Body res = Inr listing_body \<longrightarrow>
            fst (GetResources p up) =
              Inr \<lparr>Resources = [\<lparr>ResourceID = Some 1, Name = Some ''svc'',
                                  Enabled = Some True,
                                  FullDomain = Some ''svc.example.com''\<rparr>]\<rparr>)"
  using assms by (simp add: GetResources_result Unmarshal_listing)

theorem GetResources_status_then_listing_witness:
  "fst (GetResources client (answering 503 ''503 Service Unavailable'' listing_body)) =
     Inl (errors_New ''error status code: 503 Service Unavailable'') \<and>
   fst (GetResources client (answering 200 ''200 OK'' listing_body)) =
     Inr \<lparr>Resources = [\<lparr>ResourceID = Some 1, Name = Some ''svc'', Enabled = Some True,
                         FullDomain = Some ''svc.example.com''\<rparr>]\<rparr>"
proof -
  have sent: "snd (GetResources client (answering code line listing_body)) =
      [\<lparr>out_Method = ''GET'',
        out_URL = ''https://pangolin.example.com/v1/org/home/resources'',
        out_Header = [(''Authorization'', [''Bearer secret'']),
                      (''Content-Type'', [''application/json''])],
        out_Body = None\<rparr>]" for code line
    by (simp add: GetResources_answering)
  have answered: "Do (answering code line listing_body)
        \<lparr>out_Method = ''GET'',
         out_URL = ''https://pangolin.example.com/v1/org/home/resources'',
         out_Header = [(''Authorization'', [''Bearer secret'']),
                       (''Content-Type'', [''application/json''])],
         out_Body = None\<rparr> =
      Inr \<lparr>StatusCode = code, Status_text = line, ReadAll_Body = Inr listing_body\<rparr>"
    for code line
    by (simp add: answering_def answer_def)
  show ?thesis
    using GetResources_status_then_listing [OF sent answered, of 503 "''503 Service Unavailable''"]
      GetResources_status_then_listing [OF sent answered, of 200 "''200 OK''"]
    by simp
qed

text \<open>
  Claim C4 does not hold of the code.  \<open>GetResources\<close> never reads \<open>resp.Error\<close>: for the
  status code 200 and an envelope with \<open>error\<close> set it returns the \<open>data\<close> of the envelope
  and no error, where \<open>CreateRule\<close> returns an error.
\<close>

theorem GetResources_error_flag_unchecked:
  "fst (GetResources client (answering 200 ''200 OK'' refused_listing_body)) =
     Inr \<lparr>Resources = []\<rparr>"
  by (simp add: GetResources_answering Unmarshal_refused_listing)

section \<open>Properties of the handler of \<open>PUT /register/{id}\<close>\<close>

lemma canonical_X_Real_IP: "CanonicalMIMEHeaderKey ''X-Real-IP'' = ''X-Real-Ip''"
  by code_simp

text \<open>
  Claim C10.  When \<open>strconv.Atoi\<close> accepts the path value \<open>id\<close>, the handler calls
  \<open>CreateRule\<close> with that number and with the rule \<open>ACCEPT\<close>, \<open>IP\<close>, priority 10, enabled,
  whose value is the \<open>X-Real-IP\<close> header of the request (the empty string when there is
  none) and whose \<open>RuleID\<close> and \<open>ResourceID\<close> are \<open>nil\<close>; if the URL is accepted, the one
  request that goes upstream carries exactly that rule, its value written by
  \<open>encoding/json\<close> with U+FFFD for every byte that is not valid UTF-8, hence the header
  itself when the header is ASCII; the body of the incoming request has no influence.
\<close>

theorem handleRegisterIP_rule:
  assumes "Atoi (PathValue r ''id'') = Inr n"
  shows "handleRegisterIP p up w r =
           (case CreateRule p up
                   \<lparr>RuleID = None, ResourceID_rule = None, Enabled_rule = Some True,
                    Priority = Some 10, Action = Some ''ACCEPT'', Match = Some ''IP'',
                    Value = Some (Header_Get (Header r) ''X-Real-IP'')\<rparr> n of
              (Inl err, sent) \<Rightarrow> (http_Error w (Error_text err) 500, sent)
            | (Inr created, sent) \<Rightarrow> (fmt_Fprintln w ''Success'', sent)) \<and>
         (url_Parse up (host p @ ''/v1/resource/'' @ Itoa n @ ''/rule'') = None \<longrightarrow>
            snd (handleRegisterIP p up w r) =
              [\<lparr>out_Method = ''PUT'',
                out_URL = host p @ ''/v1/resource/'' @ Itoa n @ ''/rule'',
                out_Header = [(''Authorization'', [''Bearer '' @ token p]),
                              (''Content-Type'', [''application/json''])],
                out_Body = Some (JObject
                  [(''enabled'', JBool True), (''priority'', JNumber ''10''),
                   (''action'', JString ''ACCEPT''), (''match'', JString ''IP''),
                   (''value'',
                    JString (coerce_utf8 (Header_Get (Header r) ''X-Real-IP'')))])\<rparr>]) \<and>
         (url_Parse up (host p @ ''/v1/resource/'' @ Itoa n @ ''/rule'') = None \<and>
          list_all (\<lambda>c. c < CHR 0x80) (Header_Get (Header r) ''X-Real-IP'') \<longrightarrow>
            map out_Body (snd (handleRegisterIP p up w r)) =
              [Some (JObject
                  [(''enabled'', JBool True), (''priority'', JNumber ''10''),
                   (''action'', JString ''ACCEPT''), (''match'', JString ''IP''),
                   (''value'', JString (Header_Get (Header r) ''X-Real-IP''))])]) \<and>
         handleRegisterIP p up w (r\<lparr>Body := b\<rparr>) = handleRegisterIP p up w r"
proof -
  let ?rule = "\<lparr>RuleID = None, ResourceID_rule = None, Enabled_rule = Some True,
                 Priority = Some 10, Action = Some ''ACCEPT'', Match = Some ''IP'',
                 Value = Some (Header_Get (Header r) ''X-Real-IP'')\<rparr>"
  have unfold: "handleRegisterIP p up w r =
           (case CreateRule p up ?rule n of
              (Inl err, sent) \<Rightarrow> (http_Error w (Error_text err) 500, sent)
            | (Inr created, sent) \<Rightarrow> (fmt_Fprintln w ''Success'', sent))"
    using assms by (simp add: handleRegisterIP_def Let_def)
  have "snd (handleRegisterIP p up w r) = snd (CreateRule p up ?rule n)"
    unfolding unfold by (simp split: prod.splits sum.splits)
  moreover have "json_Marshal ?rule =
      JObject [(''enabled'', JBool True), (''priority'', JNumber ''10''),
               (''action'', JString ''ACCEPT''), (''match'', JString ''IP''),
               (''value'', JString (coerce_utf8 (Header_Get (Header r) ''X-Real-IP'')))]"
    by (simp add: json_Marshal_def omitempty_def Itoa_10 coerce_utf8_ACCEPT coerce_utf8_IP)
  ultimately have sent: "url_Parse up (host p @ ''/v1/resource/'' @ Itoa n @ ''/rule'') = None \<longrightarrow>
            snd (handleRegisterIP p up w r) =
              [\<lparr>out_Method = ''PUT'',
                out_URL = host p @ ''/v1/resource/'' @ Itoa n @ ''/rule'',
                out_Header = [(''Authorization'', [''Bearer '' @ token p]),
                              (''Content-Type'', [''application/json''])],
                out_Body = Some (JObject
                  [(''enabled'', JBool True), (''priority'', JNumber ''10''),
                   (''action'', JString ''ACCEPT''), (''match'', JString ''IP''),
                   (''value'',
                    JString (coerce_utf8 (Header_Get (Header r) ''X-Real-IP'')))])\<rparr>]"
    by (simp add: CreateRule_sent)
  have ascii: "url_Parse up (host p @ ''/v1/resource/'' @ Itoa n @ ''/rule'') = None \<and>
          list_all (\<lambda>c. c < CHR 0x80) (Header_Get (Header r) ''X-Real-IP'') \<longrightarrow>
            map out_Body (snd (handleRegisterIP p up w r)) =
              [Some (JObject
                  [(''enabled'', JBool True), (''priority'', JNumber ''10''),
                   (''action'', JString ''ACCEPT''), (''match'', JString ''IP''),
                   (''value'', JString (Header_Get (Header r) ''X-Real-IP''))])]"
    using sent by (simp add: coerce_utf8_ascii)
  have body: "handleRegisterIP p up w (r\<lparr>Body := b\<rparr>) = handleRegisterIP p up w r"
    by (simp add: handleRegisterIP_def)
  from unfold sent ascii body show ?thesis by blast
qed

theorem handleRegisterIP_rule_witness:
  "map out_Body (snd (handleRegisterIP client (answering 200 ''200 OK'' ''{}'') (Sink [])
     put_register_7_from_203)) =
     [Some (JObject
         [(''enabled'', JBool True), (''priority'', JNumber ''10''),
          (''action'', JString ''ACCEPT''), (''match'', JString ''IP''),
          (''value'', JString ''203.0.113.7'')])] \<and>
   snd (handleRegisterIP client (answering 200 ''200 OK'' ''{}'') (Sink []) put_register_7) =
     [\<lparr>out_Method = ''PUT'',
       out_URL = ''https://pangolin.example.com/v1/resource/7/rule'',
       out_Header = [(''Authorization'', [''Bearer secret'']),
                     (''Content-Type'', [''application/json''])],
       out_Body = Some (JObject
         [(''enabled'', JBool True), (''priority'', JNumber ''10''),
          (''action'', JString ''ACCEPT''), (''match'', JString ''IP''),
          (''value'', JString [])])\<rparr>] \<and>
   map out_Body (snd (handleRegisterIP client (answering 200 ''200 OK'' ''{}'') (Sink [])
     put_register_7_from_odd)) =
     [Some (JObject
         [(''enabled'', JBool True), (''priority'', JNumber ''10''),
          (''action'', JString ''ACCEPT''), (''match'', JString ''IP''),
          (''value'', JString [CHR ''a'', CHR 0xEF, CHR 0xBF, CHR 0xBD, CHR ''b''])])]"
proof -
  have id: "Atoi (PathValue put_register_7 ''id'') = Inr 7"
    by (simp add: put_register_7_def id_is_7_def Atoi_7)
  have id_203: "Atoi (PathValue put_register_7_from_203 ''id'') = Inr 7"
    by (simp add: put_register_7_from_203_def put_register_7_def id_is_7_def Atoi_7)
  have id_odd: "Atoi (PathValue put_register_7_from_odd ''id'') = Inr 7"
    by (simp add: put_register_7_from_odd_def put_register_7_def id_is_7_def Atoi_7)
  have ip: "Header_Get (Header put_register_7) ''X-Real-IP'' = []"
    by (simp add: put_register_7_def Header_Get_def no_values_def)
  have ip_203: "Header_Get (Header put_register_7_from_203) ''X-Real-IP'' = ''203.0.113.7''"
    by (simp add: put_register_7_from_203_def Header_Get_def real_ip_203_def
        canonical_X_Real_IP)
  have ip_odd: "Header_Get (Header put_register_7_from_odd) ''X-Real-IP'' =
      [CHR ''a'', CHR 0xFF, CHR ''b'']"
    by (simp add: put_register_7_from_odd_def Header_Get_def real_ip_odd_def
        canonical_X_Real_IP)
  have url: "url_Parse (answering 200 ''200 OK'' ''{}'')
               (host client @ ''/v1/resource/'' @ Itoa 7 @ ''/rule'') = None"
    by (simp add: answering_def any_url_def)
  have ascii_203: "list_all (\<lambda>c. c < CHR 0x80)
      (Header_Get (Header put_register_7_from_203) ''X-Real-IP'')"
    by (simp add: ip_203)
  have first: "map out_Body (snd (handleRegisterIP client (answering 200 ''200 OK'' ''{}'')
        (Sink []) put_register_7_from_203)) =
      [Some (JObject
         [(''enabled'', JBool True), (''priority'', JNumber ''10''),
          (''action'', JString ''ACCEPT''), (''match'', JString ''IP''),
          (''value'', JString (Header_Get (Header put_register_7_from_203) ''X-Real-IP''))])]"
    using handleRegisterIP_rule [OF id_203, of client "answering 200 ''200 OK'' ''{}''"
        "Sink []" "[]"] url ascii_203
    by blast
  have second: "snd (handleRegisterIP client (answering 200 ''200 OK'' ''{}'') (Sink [])
               put_register_7) =
          [\<lparr>out_Method = ''PUT'',
            out_URL = host client @ ''/v1/resource/'' @ Itoa 7 @ ''/rule'',
            out_Header = [(''Authorization'', [''Bearer '' @ token client]),
                          (''Content-Type'', [''application/json''])],
            out_Body = Some (JObject
              [(''enabled'', JBool True), (''priority'', JNumber ''10''),
               (''action'', JString ''ACCEPT''), (''match'', JString ''IP''),
               (''value'',
                JString (coerce_utf8 (Header_Get (Header put_register_7) ''X-Real-IP'')))])\<rparr>]"
    using handleRegisterIP_rule [OF id, of client "answering 200 ''200 OK'' ''{}''" "Sink []" "[]"]
      url
    by blast
  have third: "snd (handleRegisterIP client (answering 200 ''200 OK'' ''{}'') (Sink [])
               put_register_7_from_odd) =
          [\<lparr>out_Method = ''PUT'',
            out_URL = host client @ ''/v1/resource/'' @ Itoa 7 @ ''/rule'',
            out_Header = [(''Authorization'', [''Bearer '' @ token client]),
                          (''Content-Type'', [''application/json''])],
            out_Body = Some (JObject
              [(''enabled'', JBool True), (''priority'', JNumber ''10''),
               (''action'', JString ''ACCEPT''), (''match'', JString ''IP''),
               (''value'',
                JString (coerce_utf8
                  (Header_Get (Header put_register_7_from_odd) ''X-Real-IP'')))])\<rparr>]"
    using handleRegisterIP_rule [OF id_odd, of client "answering 200 ''200 OK'' ''{}''"
        "Sink []" "[]"] url
    by blast
  from first have one: "map out_Body (snd (handleRegisterIP client
        (answering 200 ''200 OK'' ''{}'') (Sink []) put_register_7_from_203)) =
      [Some (JObject
         [(''enabled'', JBool True), (''priority'', JNumber ''10''),
          (''action'', JString ''ACCEPT''), (''match'', JString ''IP''),
          (''value'', JString ''203.0.113.7'')])]"
    by (simp only: ip_203)
  from second have two: "snd (handleRegisterIP client (answering 200 ''200 OK'' ''{}'')
        (Sink []) put_register_7) =
     [\<lparr>out_Method = ''PUT'',
       out_URL = ''https://pangolin.example.com/v1/resource/7/rule'',
       out_Header = [(''Authorization'', [''Bearer secret'']),
                     (''Content-Type'', [''application/json''])],
       out_Body = Some (JObject
         [(''enabled'', JBool True), (''priority'', JNumber ''10''),
          (''action'', JString ''ACCEPT''), (''match'', JString ''IP''),
          (''value'', JString [])])\<rparr>]"
    by (simp add: ip Itoa_7 client_def coerce_utf8.simps(1))
  from third have three: "map out_Body (snd (handleRegisterIP client
        (answering 200 ''200 OK'' ''{}'') (Sink []) put_register_7_from_odd)) =
     [Some (JObject
         [(''enabled'', JBool True), (''priority'', JNumber ''10''),
          (''action'', JString ''ACCEPT''), (''match'', JString ''IP''),
          (''value'', JString [CHR ''a'', CHR 0xEF, CHR 0xBF, CHR 0xBD, CHR ''b''])])]"
    by (simp add: ip_odd coerce_utf8_odd)
  from one two three show ?thesis by blast
qed

section \<open>Properties of \<open>run\<close> and \<open>main\<close>\<close>

lemma run_configured:
  assumes "lookupEnv ''PORT'' = Some portEnv" and "Atoi portEnv = Inr port"
    and "os_LookupEnv wd ''PANGOLIN_TOKEN'' \<noteq> None"
    and "os_LookupEnv wd ''PANGOLIN_HOST'' \<noteq> None"
    and "os_LookupEnv wd ''PANGOLIN_ORG'' \<noteq> None"
  shows "run lookupEnv version wd =
           (case select wd of
              None \<Rightarrow> None
            | Some (From_errChan err) \<Rightarrow> Some (Some err)
            | Some From_Done \<Rightarrow> Some (shutting_down wd))"
  using assms by (auto simp add: run_def)

text \<open>
  Claim C8, as the code has it.  With the configuration in place: \<open>http.ErrServerClosed\<close>
  is never put on the error channel, so that \<open>run\<close> returns only through the shutdown
  path; any other error of the listener is returned by \<open>run\<close>, and \<open>main\<close> prints it and
  exits with code 1, provided the \<open>select\<close> receives it, which it does when the context is
  not cancelled or when the \<open>select\<close> picks the error channel; a shutdown that succeeds
  makes \<open>run\<close> return \<open>nil\<close> and \<open>main\<close> exit with code 0.
\<close>

theorem run_serve_error_and_exit_code:
  assumes "os_LookupEnv wd ''PORT'' = Some portEnv" and "Atoi portEnv = Inr port"
    and "os_LookupEnv wd ''PANGOLIN_TOKEN'' \<noteq> None"
    and "os_LookupEnv wd ''PANGOLIN_HOST'' \<noteq> None"
    and "os_LookupEnv wd ''PANGOLIN_ORG'' \<noteq> None"
  shows "(ListenAndServe wd = Some ErrServerClosed \<longrightarrow>
            errChan wd = None \<and>
            run (os_LookupEnv wd) Version wd =
              (if ctx_Done wd then Some (shutting_down wd) else None)) \<and>
         (ListenAndServe wd = Some err \<and> err \<noteq> ErrServerClosed \<and>
          (\<not> ctx_Done wd \<or> select_errChan wd) \<longrightarrow>
            run (os_LookupEnv wd) Version wd = Some (Some err) \<and>
            main Version wd = Some (Error_text err @ [CHR 0x0A], 1)) \<and>
         (select wd = Some From_Done \<and> Shutdown wd = None \<longrightarrow>
            run (os_LookupEnv wd) Version wd = Some None \<and>
            main Version wd = Some ([], 0))"
  using run_configured [of "os_LookupEnv wd" portEnv port wd Version] assms
  by (auto simp add: main_def select_def errChan_def shutting_down_def split: if_splits)

theorem run_serve_error_and_exit_code_witness:
  "main ''dev'' failing_listener =
     Some (''listen tcp :8080: bind: address already in use'' @ [CHR 0x0A], 1) \<and>
   main ''dev'' clean_shutdown = Some ([], 0)"
proof -
  have env: "os_LookupEnv wd = full_env \<Longrightarrow>
      os_LookupEnv wd ''PORT'' = Some ''8080'' \<and> os_LookupEnv wd ''PANGOLIN_TOKEN'' \<noteq> None \<and>
      os_LookupEnv wd ''PANGOLIN_HOST'' \<noteq> None \<and> os_LookupEnv wd ''PANGOLIN_ORG'' \<noteq> None" for wd
    by (simp add: full_env_def)
  have e1: "os_LookupEnv failing_listener = full_env" by (simp add: failing_listener_def)
  have e2: "os_LookupEnv clean_shutdown = full_env" by (simp add: clean_shutdown_def)
  show ?thesis
    using run_serve_error_and_exit_code [where wd = failing_listener and portEnv = "''8080''"
        and port = 8080 and err = bind_error and Version = "''dev''"]
      run_serve_error_and_exit_code [where wd = clean_shutdown and portEnv = "''8080''"
        and port = 8080 and err = bind_error and Version = "''dev''"]
      env [OF e1] env [OF e2]
    by (simp add: Atoi_8080 failing_listener_def clean_shutdown_def bind_error_def select_def
        errChan_def)
qed

text \<open>
  Claim C8 as stated fails: when the listener has failed and the context is cancelled as
  well, the \<open>select\<close> may take \<open><-ctx.Done()\<close>; the error of the listener stays in the
  channel, \<open>run\<close> returns \<open>nil\<close> and the process exits with code 0.
\<close>

theorem serve_error_lost_counterexample:
  "ListenAndServe failing_while_signalled = Some bind_error \<and>
   bind_error \<noteq> ErrServerClosed \<and>
   run full_env ''dev'' failing_while_signalled = Some None \<and>
   main ''dev'' failing_while_signalled = Some ([], 0)"
  by (simp add: failing_while_signalled_def bind_error_def run_def main_def full_env_def
      Atoi_8080 select_def errChan_def shutting_down_def)

end
